theory Spec2Isabelle
  imports Main
begin

section \<open>The project-scoped client of go-tracker (project\_client.go)\<close>

text \<open>
  The file under verification is \<^verbatim>\<open>project_client.go\<close>: a client bound to one numeric
  project ID that builds requests through a transport collaborator (\<^verbatim>\<open>conn\<close>) and hands
  them to the collaborator's \<^verbatim>\<open>Do\<close>. The embedding follows the Go text function by
  function. What Go leaves to the standard library or to other files of the package is made
  explicit:
  \<^item> Go's \<^verbatim>\<open>int\<close> is modelled by \<open>int\<close>; no arithmetic is done on these numbers, they
    are only printed, so every theorem covers the values of either machine width;
  \<^item> a Go \<^verbatim>\<open>string\<close> is a byte string, here \<open>string\<close>;
  \<^item> a slice is \<open>'a list option\<close>, \<open>None\<close> being the nil slice and \<open>Some []\<close>
    the empty slice \<^verbatim>\<open>[]T{}\<close>;
  \<^item> an \<^verbatim>\<open>error\<close> is \<open>'e option\<close>, \<open>None\<close> being \<^verbatim>\<open>nil\<close>;
  \<^item> the struct types declared in other files (Pagination, Task, Blocker, Activity,
    ProjectMembership) are type variables; where the code writes their zero value
    \<^verbatim>\<open>T{}\<close> the type is of class \<open>zero\<close> and the value is \<open>0\<close>;
  \<^item> \<^verbatim>\<open>Iteration\<close> is declared in this file, but no operation reads or writes a field
    of it: the elements of the slices that \<^verbatim>\<open>Do\<close> fills are type variables too;
  \<^item> a request that the transport returns without an error is a request with a header
    map, as \<^verbatim>\<open>http.NewRequest\<close> builds it.
\<close>

subsection \<open>Formatting with \<^verbatim>\<open>%d\<close>\<close>

text \<open>
  \<^verbatim>\<open>fmt.Sprintf("%d", n)\<close> prints a Go integer in base 10, with a leading minus sign
  for a negative number and no padding.
\<close>

definition digit_char :: "nat \<Rightarrow> char" where
  "digit_char d = ''0123456789'' ! d"

fun nat_digits :: "nat \<Rightarrow> string" where
  "nat_digits n =
     (if n < 10 then [digit_char n] else nat_digits (n div 10) @ [digit_char (n mod 10)])"

declare nat_digits.simps [simp del]

definition Sprintf_d :: "int \<Rightarrow> string" where
  "Sprintf_d n = (if n < 0 then ''-'' @ nat_digits (nat (- n)) else nat_digits (nat n))"

text \<open>Reading a decimal numeral back, to state that \<open>Sprintf_d\<close> is base 10.\<close>

definition digit_value :: "char \<Rightarrow> nat" where
  "digit_value c = of_char c - 48"

definition decimal_value :: "string \<Rightarrow> nat" where
  "decimal_value s = foldl (\<lambda>a c. 10 * a + digit_value c) 0 s"

definition parse_d :: "string \<Rightarrow> int" where
  "parse_d s =
     (case s of
        [] \<Rightarrow> 0
      | c # cs \<Rightarrow> if c = CHR ''-'' then - int (decimal_value cs) else int (decimal_value s))"

subsection \<open>Query parameters\<close>

text \<open>
  \<^verbatim>\<open>url.Values\<close> is \<^verbatim>\<open>map[string][]string\<close>. The operations below also pass the nil
  map, which is \<open>None\<close> here. \<^verbatim>\<open>Values.Set(key, value)\<close> replaces the values of the key
  by the single value.
\<close>

type_synonym Values = "(string \<rightharpoonup> string list) option"

definition Values_Set :: "(string \<rightharpoonup> string list) \<Rightarrow> string \<Rightarrow> string \<Rightarrow> (string \<rightharpoonup> string list)" where
  "Values_Set v key val = v(key \<mapsto> [val])"

type_synonym IterationScope = string

definition IterationScopeDone :: IterationScope where
  "IterationScopeDone = ''done''"

definition IterationScopeCurrent :: IterationScope where
  "IterationScopeCurrent = ''current''"

definition IterationScopeBacklog :: IterationScope where
  "IterationScopeBacklog = ''backlog''"

definition IterationScopeCurrentBacklog :: IterationScope where
  "IterationScopeCurrentBacklog = ''current_backlog''"

definition IterationScopeDoneCurrent :: IterationScope where
  "IterationScopeDoneCurrent = ''done_current''"

record IterationsQuery =
  Scope :: IterationScope
  Label :: string
  Limit :: int
  Offset :: int

definition IterationsQuery_Query :: "IterationsQuery \<Rightarrow> Values" where
  "IterationsQuery_Query query =
     (let params = Map.empty;
          params = (if Scope query \<noteq> '''' then Values_Set params ''scope'' (Scope query)
                    else params);
          params = (if Label query \<noteq> '''' then Values_Set params ''label'' (Label query)
                    else params);
          params = (if Limit query \<noteq> 0
                    then Values_Set params ''limit'' (Sprintf_d (Limit query)) else params);
          params = (if Offset query \<noteq> 0
                    then Values_Set params ''offset'' (Sprintf_d (Offset query)) else params)
      in Some params)"

subsection \<open>Requests and the transport collaborator\<close>

text \<open>
  The client touches two fields of an \<^verbatim>\<open>*http.Request\<close>: the header, a map from a key
  to the list of its values, and the body, a stream that is modelled by the bytes it
  yields (\<open>None\<close> when the request has no body). Whatever else the transport puts into a
  request (method, URL, ...) is the extension of the record.
\<close>

record Request =
  Header :: "string \<rightharpoonup> string list"
  Body :: "string option"

text \<open>
  \<^verbatim>\<open>Header.Add(key, value)\<close> appends the value to the values of the key. The key
  \<^verbatim>\<open>Content-Type\<close> is already in canonical form.
\<close>

definition Header_Add :: "(string \<rightharpoonup> string list) \<Rightarrow> string \<Rightarrow> string \<Rightarrow> (string \<rightharpoonup> string list)" where
  "Header_Add h key val = h(key \<mapsto> (case h key of None \<Rightarrow> [] | Some vs \<Rightarrow> vs) @ [val])"

text \<open>
  \<^verbatim>\<open>Header.Get(key)\<close>, the value of a header as the standard library reads it: the first
  of the values of the key, the empty string when there is none.
\<close>

definition Header_Get :: "(string \<rightharpoonup> string list) \<Rightarrow> string \<Rightarrow> string" where
  "Header_Get h key = (case h key of None \<Rightarrow> [] | Some [] \<Rightarrow> [] | Some (v # vs) \<Rightarrow> v)"

text \<open>
  Modelled from the spec: the interface \<^verbatim>\<open>connection\<close> is declared in another file of the
  package; the spec gives its two operations as
  \<^verbatim>\<open>CreateRequest(method, path, query) -> Request | error\<close> and
  \<^verbatim>\<open>Do(request, destination) -> Pagination, Error\<close>. An implementation may keep state
  (a counting stub, the remote service), so both run on a state \<open>'s\<close> and return the new
  one. The destination of \<^verbatim>\<open>Do\<close> is \<open>None\<close> for \<^verbatim>\<open>nil\<close> and \<open>Some v\<close> for a
  pointer to a variable that holds \<open>v\<close>; \<^verbatim>\<open>Do\<close> answers with the value it stored through
  the pointer (\<open>None\<close> when it stored nothing), the pagination and the error.
\<close>

record ('r, 'd, 'p, 'e, 's) connection =
  CreateRequest :: "string \<Rightarrow> string \<Rightarrow> Values \<Rightarrow> 's \<Rightarrow> ('e + 'r Request_scheme) \<times> 's"
  Do :: "'r Request_scheme \<Rightarrow> 'd option \<Rightarrow> 's \<Rightarrow> ('d option \<times> 'p \<times> 'e option) \<times> 's"

record ('r, 'd, 'p, 'e, 's) ProjectClient =
  id' :: int
  conn :: "('r, 'd, 'p, 'e, 's) connection"

text \<open>
  To speak about which calls an operation makes, the state the operations run on pairs the
  transport's state with the list of the calls made so far, in order.
\<close>

datatype ('r, 'd) call =
    CreateRequest_call string string Values
  | Do_call "'r Request_scheme" "'d option"

type_synonym ('r, 'd, 's) world = "('r, 'd) call list \<times> 's"

definition call_CreateRequest ::
  "('r, 'd, 'p, 'e, 's) connection \<Rightarrow> string \<Rightarrow> string \<Rightarrow> Values \<Rightarrow> ('r, 'd, 's) world
     \<Rightarrow> ('e + 'r Request_scheme) \<times> ('r, 'd, 's) world" where
  "call_CreateRequest c method path params w =
     (case CreateRequest c method path params (snd w) of
        (result, s') \<Rightarrow> (result, (fst w @ [CreateRequest_call method path params], s')))"

definition call_Do ::
  "('r, 'd, 'p, 'e, 's) connection \<Rightarrow> 'r Request_scheme \<Rightarrow> 'd option \<Rightarrow> ('r, 'd, 's) world
     \<Rightarrow> ('d option \<times> 'p \<times> 'e option) \<times> ('r, 'd, 's) world" where
  "call_Do c request dest w =
     (case Do c request dest (snd w) of
        (result, s') \<Rightarrow> (result, (fst w @ [Do_call request dest], s')))"

text \<open>The variable behind the destination pointer after \<^verbatim>\<open>Do\<close> has returned.\<close>

definition assigned :: "'d \<Rightarrow> 'd option \<Rightarrow> 'd" where
  "assigned v written = (case written of None \<Rightarrow> v | Some v' \<Rightarrow> v')"

subsection \<open>Request assembly\<close>

definition createRequest ::
  "('r, 'd, 'p, 'e, 's) ProjectClient \<Rightarrow> string \<Rightarrow> string \<Rightarrow> Values \<Rightarrow> ('r, 'd, 's) world
     \<Rightarrow> ('e + 'r Request_scheme) \<times> ('r, 'd, 's) world" where
  "createRequest p method path params w =
     (let projectPath = ''/projects/'' @ Sprintf_d (id' p) @ path
      in call_CreateRequest (conn p) method projectPath params w)"

definition addJSONBodyReader ::
  "('r, 'd, 'p, 'e, 's) ProjectClient \<Rightarrow> 'r Request_scheme \<Rightarrow> string \<Rightarrow> 'r Request_scheme" where
  "addJSONBodyReader p request body =
     request\<lparr>Header := Header_Add (Header request) ''Content-Type'' ''application/json'',
             Body := Some body\<rparr>"

definition addJSONBody ::
  "('r, 'd, 'p, 'e, 's) ProjectClient \<Rightarrow> 'r Request_scheme \<Rightarrow> string \<Rightarrow> 'r Request_scheme" where
  "addJSONBody p request body = addJSONBodyReader p request body"

definition delivered_body :: string where
  \<open>delivered_body = ''{"current_state":"delivered"}''\<close>

subsection \<open>Resource records and the JSON encoder\<close>

text \<open>
  \<^verbatim>\<open>Story\<close> and \<^verbatim>\<open>Comment\<close> are declared in other files of the package. This file
  reads \<^verbatim>\<open>story.ID\<close> and builds \<^verbatim>\<open>Comment{Text: comment}\<close>; the remaining fields are
  the extension of the record, of class \<open>zero\<close> for the zero value.
\<close>

record Story =
  ID :: int

record Comment =
  Text :: string

definition Story_zero :: "('z::zero) Story_scheme" where
  "Story_zero = \<lparr>ID = 0, \<dots> = 0\<rparr>"

definition Comment_zero :: "('z::zero) Comment_scheme" where
  "Comment_zero = \<lparr>Text = [], \<dots> = 0\<rparr>"

text \<open>
  \<^verbatim>\<open>json.NewEncoder(buffer).Encode(v)\<close> belongs to the standard library. It is a
  parameter \<open>Encode\<close> of the operations that send a record: \<open>Encode v\<close> is the pair of
  the bytes the call leaves in the fresh buffer and of the error it returns.
\<close>

type_synonym ('a, 'e) encoder = "'a \<Rightarrow> string \<times> 'e option"

subsection \<open>Resource operations\<close>

text \<open>
  The \<^verbatim>\<open>Query\<close> methods of \<^verbatim>\<open>StoriesQuery\<close>, \<^verbatim>\<open>ActivityQuery\<close>, \<^verbatim>\<open>TaskQuery\<close> and
  \<^verbatim>\<open>CommentsQuery\<close> are declared in other files; the operations that call one take it as
  their first argument \<open>Query\<close>.
\<close>

definition Iterations ::
  "('r, 'i list option, 'p::zero, 'e, 's) ProjectClient \<Rightarrow> IterationsQuery
     \<Rightarrow> ('r, 'i list option, 's) world
     \<Rightarrow> ('i list option \<times> 'p \<times> 'e option) \<times> ('r, 'i list option, 's) world" where
  "Iterations p query w =
     (case createRequest p ''GET'' ''/iterations'' (IterationsQuery_Query query) w of
        (Inl err, w1) \<Rightarrow> ((None, 0, Some err), w1)
      | (Inr request, w1) \<Rightarrow>
          (let iterations = None in
           case call_Do (conn p) request (Some iterations) w1 of
             ((written, pagination, Some err), w2) \<Rightarrow> ((None, 0, Some err), w2)
           | ((written, pagination, None), w2) \<Rightarrow>
               ((assigned iterations written, pagination, None), w2)))"

definition Stories ::
  "('q \<Rightarrow> Values) \<Rightarrow> ('r, 'st list option, 'p::zero, 'e, 's) ProjectClient \<Rightarrow> 'q
     \<Rightarrow> ('r, 'st list option, 's) world
     \<Rightarrow> ('st list option \<times> 'p \<times> 'e option) \<times> ('r, 'st list option, 's) world" where
  "Stories Query p query w =
     (case createRequest p ''GET'' ''/stories'' (Query query) w of
        (Inl err, w1) \<Rightarrow> ((None, 0, Some err), w1)
      | (Inr request, w1) \<Rightarrow>
          (let stories = None in
           case call_Do (conn p) request (Some stories) w1 of
             ((written, pagination, Some err), w2) \<Rightarrow> ((None, 0, Some err), w2)
           | ((written, pagination, None), w2) \<Rightarrow>
               ((assigned stories written, pagination, None), w2)))"

definition StoryActivity ::
  "('q \<Rightarrow> Values) \<Rightarrow> ('r, 'a list option, 'p, 'e, 's) ProjectClient \<Rightarrow> int \<Rightarrow> 'q
     \<Rightarrow> ('r, 'a list option, 's) world
     \<Rightarrow> ('a list option \<times> 'e option) \<times> ('r, 'a list option, 's) world" where
  "StoryActivity Query p storyId query w =
     (let activities = None;
          url = ''/stories/'' @ Sprintf_d storyId @ ''/activity''
      in case createRequest p ''GET'' url (Query query) w of
           (Inl err, w1) \<Rightarrow> ((activities, Some err), w1)
         | (Inr request, w1) \<Rightarrow>
             (case call_Do (conn p) request (Some activities) w1 of
                ((written, pagination, err), w2) \<Rightarrow> ((assigned activities written, err), w2)))"

definition StoryTasks ::
  "('q \<Rightarrow> Values) \<Rightarrow> ('r, 't list option, 'p, 'e, 's) ProjectClient \<Rightarrow> int \<Rightarrow> 'q
     \<Rightarrow> ('r, 't list option, 's) world
     \<Rightarrow> ('t list option \<times> 'e option) \<times> ('r, 't list option, 's) world" where
  "StoryTasks Query p storyId query w =
     (let tasks = None;
          url = ''/stories/'' @ Sprintf_d storyId @ ''/tasks''
      in case createRequest p ''GET'' url (Query query) w of
           (Inl err, w1) \<Rightarrow> ((tasks, Some err), w1)
         | (Inr request, w1) \<Rightarrow>
             (case call_Do (conn p) request (Some tasks) w1 of
                ((written, pagination, err), w2) \<Rightarrow> ((assigned tasks written, err), w2)))"

definition StoryComments ::
  "('q \<Rightarrow> Values) \<Rightarrow> ('r, 'c list option, 'p, 'e, 's) ProjectClient \<Rightarrow> int \<Rightarrow> 'q
     \<Rightarrow> ('r, 'c list option, 's) world
     \<Rightarrow> ('c list option \<times> 'e option) \<times> ('r, 'c list option, 's) world" where
  "StoryComments Query p storyId query w =
     (let comments = None;
          url = ''/stories/'' @ Sprintf_d storyId @ ''/comments''
      in case createRequest p ''GET'' url (Query query) w of
           (Inl err, w1) \<Rightarrow> ((comments, Some err), w1)
         | (Inr request, w1) \<Rightarrow>
             (case call_Do (conn p) request (Some comments) w1 of
                ((written, pagination, err), w2) \<Rightarrow> ((assigned comments written, err), w2)))"

definition DeliverStory ::
  "('r, 'd, 'p, 'e, 's) ProjectClient \<Rightarrow> int \<Rightarrow> ('r, 'd, 's) world
     \<Rightarrow> 'e option \<times> ('r, 'd, 's) world" where
  \<open>DeliverStory p storyId w =
     (let url = ''/stories/'' @ Sprintf_d storyId
      in case createRequest p ''PUT'' url None w of
           (Inl err, w1) \<Rightarrow> (Some err, w1)
         | (Inr request, w1) \<Rightarrow>
             (let request = addJSONBody p request ''{"current_state":"delivered"}''
              in case call_Do (conn p) request None w1 of
                   ((written, pagination, err), w2) \<Rightarrow> (err, w2)))\<close>

definition DeliverStoryWithComment ::
  "(('z::zero) Comment_scheme, 'e) encoder \<Rightarrow> ('r, 'd, 'p, 'e, 's) ProjectClient \<Rightarrow> int \<Rightarrow> string
     \<Rightarrow> ('r, 'd, 's) world \<Rightarrow> 'e option \<times> ('r, 'd, 's) world" where
  "DeliverStoryWithComment Encode p storyId comment w =
     (case DeliverStory p storyId w of
        (Some err, w1) \<Rightarrow> (Some err, w1)
      | (None, w1) \<Rightarrow>
          (let url = ''/stories/'' @ Sprintf_d storyId @ ''/comments''
           in case createRequest p ''POST'' url None w1 of
                (Inl err, w2) \<Rightarrow> (Some err, w2)
              | (Inr request, w2) \<Rightarrow>
                  (let buffer = fst (Encode \<lparr>Text = comment, \<dots> = 0\<rparr>);
                       request = addJSONBodyReader p request buffer
                   in case call_Do (conn p) request None w2 of
                        ((written, pagination, err), w3) \<Rightarrow> (err, w3))))"

definition CreateStory ::
  "(('z::zero) Story_scheme, 'e) encoder \<Rightarrow> ('r, 'z Story_scheme, 'p, 'e, 's) ProjectClient
     \<Rightarrow> 'z Story_scheme \<Rightarrow> ('r, 'z Story_scheme, 's) world
     \<Rightarrow> ('z Story_scheme \<times> 'e option) \<times> ('r, 'z Story_scheme, 's) world" where
  "CreateStory Encode p story w =
     (case createRequest p ''POST'' ''/stories'' None w of
        (Inl err, w1) \<Rightarrow> ((Story_zero, Some err), w1)
      | (Inr request, w1) \<Rightarrow>
          (let buffer = fst (Encode story);
               request = addJSONBodyReader p request buffer;
               createdStory = Story_zero
           in case call_Do (conn p) request (Some createdStory) w1 of
                ((written, pagination, err), w2) \<Rightarrow> ((assigned createdStory written, err), w2)))"

definition UpdateStory ::
  "(('z::zero) Story_scheme, 'e) encoder \<Rightarrow> ('r, 'z Story_scheme, 'p, 'e, 's) ProjectClient
     \<Rightarrow> 'z Story_scheme \<Rightarrow> ('r, 'z Story_scheme, 's) world
     \<Rightarrow> ('z Story_scheme \<times> 'e option) \<times> ('r, 'z Story_scheme, 's) world" where
  "UpdateStory Encode p story w =
     (let url = ''/stories/'' @ Sprintf_d (ID story)
      in case createRequest p ''PUT'' url None w of
           (Inl err, w1) \<Rightarrow> ((Story_zero, Some err), w1)
         | (Inr request, w1) \<Rightarrow>
             (let buffer = fst (Encode story);
                  request = addJSONBodyReader p request buffer;
                  updatedStory = Story_zero
              in case call_Do (conn p) request (Some updatedStory) w1 of
                   ((written, pagination, err), w2) \<Rightarrow>
                     ((assigned updatedStory written, None), w2)))"

definition DeleteStory ::
  "('r, 'd, 'p, 'e, 's) ProjectClient \<Rightarrow> int \<Rightarrow> ('r, 'd, 's) world
     \<Rightarrow> 'e option \<times> ('r, 'd, 's) world" where
  "DeleteStory p storyId w =
     (let url = ''/stories/'' @ Sprintf_d storyId
      in case createRequest p ''DELETE'' url None w of
           (Inl err, w1) \<Rightarrow> (Some err, w1)
         | (Inr request, w1) \<Rightarrow>
             (case call_Do (conn p) request None w1 of
                ((written, pagination, err), w2) \<Rightarrow> (err, w2)))"

definition CreateTask ::
  "('t, 'e) encoder \<Rightarrow> ('r, 't::zero, 'p, 'e, 's) ProjectClient \<Rightarrow> int \<Rightarrow> 't
     \<Rightarrow> ('r, 't, 's) world \<Rightarrow> ('t \<times> 'e option) \<times> ('r, 't, 's) world" where
  "CreateTask Encode p storyID task w =
     (let url = ''/stories/'' @ Sprintf_d storyID @ ''/tasks''
      in case createRequest p ''POST'' url None w of
           (Inl err, w1) \<Rightarrow> ((0, Some err), w1)
         | (Inr request, w1) \<Rightarrow>
             (let buffer = fst (Encode task);
                  request = addJSONBodyReader p request buffer;
                  createdTask = 0
              in case call_Do (conn p) request (Some createdTask) w1 of
                   ((written, pagination, err), w2) \<Rightarrow>
                     ((assigned createdTask written, err), w2)))"

definition CreateComment ::
  "(('z::zero) Comment_scheme, 'e) encoder \<Rightarrow> ('r, 'z Comment_scheme, 'p, 'e, 's) ProjectClient
     \<Rightarrow> int \<Rightarrow> 'z Comment_scheme \<Rightarrow> ('r, 'z Comment_scheme, 's) world
     \<Rightarrow> ('z Comment_scheme \<times> 'e option) \<times> ('r, 'z Comment_scheme, 's) world" where
  "CreateComment Encode p storyID comment w =
     (let url = ''/stories/'' @ Sprintf_d storyID @ ''/comments''
      in case createRequest p ''POST'' url None w of
           (Inl err, w1) \<Rightarrow> ((Comment_zero, Some err), w1)
         | (Inr request, w1) \<Rightarrow>
             (let buffer = fst (Encode comment);
                  request = addJSONBodyReader p request buffer;
                  createdComment = Comment_zero
              in case call_Do (conn p) request (Some createdComment) w1 of
                   ((written, pagination, err), w2) \<Rightarrow>
                     ((assigned createdComment written, err), w2)))"

definition CreateBlocker ::
  "('b, 'e) encoder \<Rightarrow> ('r, 'b::zero, 'p, 'e, 's) ProjectClient \<Rightarrow> int \<Rightarrow> 'b
     \<Rightarrow> ('r, 'b, 's) world \<Rightarrow> ('b \<times> 'e option) \<times> ('r, 'b, 's) world" where
  "CreateBlocker Encode p storyID blocker w =
     (let url = ''/stories/'' @ Sprintf_d storyID @ ''/blockers''
      in case createRequest p ''POST'' url None w of
           (Inl err, w1) \<Rightarrow> ((0, Some err), w1)
         | (Inr request, w1) \<Rightarrow>
             (let buffer = fst (Encode blocker);
                  request = addJSONBodyReader p request buffer;
                  createdBlocker = 0
              in case call_Do (conn p) request (Some createdBlocker) w1 of
                   ((written, pagination, err), w2) \<Rightarrow>
                     ((assigned createdBlocker written, err), w2)))"

definition ProjectMemberships ::
  "('r, 'm list option, 'p, 'e, 's) ProjectClient \<Rightarrow> ('r, 'm list option, 's) world
     \<Rightarrow> ('m list option \<times> 'e option) \<times> ('r, 'm list option, 's) world" where
  "ProjectMemberships p w =
     (case createRequest p ''GET'' ''/memberships'' None w of
        (Inl err, w1) \<Rightarrow> ((Some [], Some err), w1)
      | (Inr request, w1) \<Rightarrow>
          (let memberships = None in
           case call_Do (conn p) request (Some memberships) w1 of
             ((written, pagination, Some err), w2) \<Rightarrow> ((Some [], Some err), w2)
           | ((written, pagination, None), w2) \<Rightarrow>
               ((assigned memberships written, None), w2)))"

subsection \<open>Reading a list of calls\<close>

text \<open>
  \<open>created\<close> keeps the \<^verbatim>\<open>CreateRequest\<close> calls of a list of calls (method, path, query
  parameters), \<open>sent\<close> the \<^verbatim>\<open>Do\<close> calls (request, destination), both in order.
\<close>

fun created :: "('r, 'd) call list \<Rightarrow> (string \<times> string \<times> Values) list" where
  "created [] = []"
| "created (CreateRequest_call method path params # cs) = (method, path, params) # created cs"
| "created (Do_call request dest # cs) = created cs"

fun sent :: "('r, 'd) call list \<Rightarrow> ('r Request_scheme \<times> 'd option) list" where
  "sent [] = []"
| "sent (CreateRequest_call method path params # cs) = sent cs"
| "sent (Do_call request dest # cs) = (request, dest) # sent cs"

abbreviation projectPath :: "('r, 'd, 'p, 'e, 's) ProjectClient \<Rightarrow> string \<Rightarrow> string" where
  "projectPath p path \<equiv> ''/projects/'' @ Sprintf_d (id' p) @ path"

subsection \<open>Query builders declared in other files\<close>

text \<open>
  Modelled from the spec: the \<^verbatim>\<open>Query\<close> method of \<^verbatim>\<open>StoriesQuery\<close> is in another file of
  the package. The spec (sections 4.1 and 8) says of every query type: each filter field
  maps to exactly one parameter key, a zero-valued field is omitted, a non-zero field
  appears under its key with its string-rendered value, a number in base 10. A filter
  struct is given here by its fields in order, each with its key.
\<close>

datatype filter_field = String_field string | Int_field int

definition field_is_zero :: "filter_field \<Rightarrow> bool" where
  "field_is_zero f = (case f of String_field s \<Rightarrow> s = [] | Int_field n \<Rightarrow> n = 0)"

definition field_render :: "filter_field \<Rightarrow> string" where
  "field_render f = (case f of String_field s \<Rightarrow> s | Int_field n \<Rightarrow> Sprintf_d n)"

text \<open>
  Modelled from the spec: \<^verbatim>\<open>StoriesQuery.Query\<close> (and the \<^verbatim>\<open>Query\<close> methods of the
  other query types that are not in this file), as the spec words it: the fields are
  visited in order, a zero-valued field adds nothing, a non-zero field sets its key to its
  rendered value.
\<close>

definition spec_Query :: "(string \<times> filter_field) list \<Rightarrow> Values" where
  "spec_Query fs =
     Some (foldl (\<lambda>params (key, f).
                    if field_is_zero f then params else Values_Set params key (field_render f))
                 Map.empty fs)"

definition non_zero_fields :: "(string \<times> filter_field) list \<Rightarrow> (string \<times> filter_field) list" where
  "non_zero_fields fs = filter (\<lambda>(key, f). \<not> field_is_zero f) fs"

subsection \<open>Transports used to state and to test the properties\<close>

text \<open>
  \<open>with_pagination f c\<close> is the transport \<open>c\<close> whose \<^verbatim>\<open>Do\<close> returns \<open>f pagination\<close>
  where \<open>c\<close> returns \<open>pagination\<close>, and is \<open>c\<close> otherwise.
\<close>

definition with_pagination ::
  "('p \<Rightarrow> 'p) \<Rightarrow> ('r, 'd, 'p, 'e, 's) connection \<Rightarrow> ('r, 'd, 'p, 'e, 's) connection" where
  "with_pagination f c =
     c\<lparr>Do := \<lambda>request dest s.
          (case Do c request dest s of
             ((written, pagination, err), s') \<Rightarrow> ((written, f pagination, err), s'))\<rparr>"

text \<open>
  A stub transport that counts its calls. \<^verbatim>\<open>CreateRequest\<close> fails for the methods in
  \<open>refused\<close> and otherwise returns a request with an empty header and no body;
  \<^verbatim>\<open>Do\<close> answers by \<open>answer\<close>, given the number of calls made before.
\<close>

definition stub ::
  "string list \<Rightarrow> (nat \<Rightarrow> 'd option \<times> nat \<times> string option)
     \<Rightarrow> (unit, 'd, nat, string, nat) connection" where
  "stub refused answer =
     \<lparr>CreateRequest = (\<lambda>method path params n.
          (if method \<in> set refused then Inl ''cannot create request''
           else Inr \<lparr>Header = Map.empty, Body = None\<rparr>, n + 1)),
      Do = (\<lambda>request dest n. (answer n, n + 1))\<rparr>"

definition stub_client ::
  "string list \<Rightarrow> (nat \<Rightarrow> 'd option \<times> nat \<times> string option)
     \<Rightarrow> (unit, 'd, nat, string, nat) ProjectClient" where
  "stub_client refused answer = \<lparr>id' = 7, conn = stub refused answer\<rparr>"

definition json_request :: "string \<Rightarrow> Request" where
  "json_request body =
     \<lparr>Header = [''Content-Type'' \<mapsto> [''application/json'']], Body = Some body\<rparr>"

definition scripted :: "(nat \<times> 'a) list \<Rightarrow> 'a \<Rightarrow> nat \<Rightarrow> 'a" where
  "scripted answers other n = (case map_of answers n of None \<Rightarrow> other | Some r \<Rightarrow> r)"

definition encode_stub :: "string \<Rightarrow> 'e option \<Rightarrow> ('a, 'e) encoder" where
  "encode_stub bytes err v = (bytes, err)"

text \<open>
  A stub transport whose \<^verbatim>\<open>CreateRequest\<close> always returns the given request, and the
  requests used with it: one that already carries the content type \<^verbatim>\<open>text/plain\<close>, and
  the same request after a body has been attached.
\<close>

definition stub_returning ::
  "Request \<Rightarrow> (nat \<Rightarrow> 'd option \<times> nat \<times> string option)
     \<Rightarrow> (unit, 'd, nat, string, nat) ProjectClient" where
  "stub_returning given answer =
     \<lparr>id' = 7,
      conn = \<lparr>CreateRequest = (\<lambda>method path params n. (Inr given, n + 1)),
              Do = (\<lambda>request dest n. (answer n, n + 1))\<rparr>\<rparr>"

definition text_request :: Request where
  "text_request = \<lparr>Header = [''Content-Type'' \<mapsto> [''text/plain'']], Body = None\<rparr>"

definition text_json_request :: "string \<Rightarrow> Request" where
  "text_json_request body =
     \<lparr>Header = [''Content-Type'' \<mapsto> [''text/plain'', ''application/json'']],
      Body = Some body\<rparr>"

text \<open>\<open>without_error Encode\<close> writes the bytes \<open>Encode\<close> writes and never fails.\<close>

definition without_error :: "('a, 'e) encoder \<Rightarrow> ('a, 'e) encoder" where
  "without_error Encode v = (fst (Encode v), None)"

text \<open>The stub client at the destination types of the operations.\<close>

abbreviation list_stub ::
  "string list \<Rightarrow> (nat \<Rightarrow> nat list option option \<times> nat \<times> string option)
     \<Rightarrow> (unit, nat list option, nat, string, nat) ProjectClient" where
  "list_stub \<equiv> stub_client"

abbreviation story_stub ::
  "string list \<Rightarrow> (nat \<Rightarrow> nat Story_scheme option \<times> nat \<times> string option)
     \<Rightarrow> (unit, nat Story_scheme, nat, string, nat) ProjectClient" where
  "story_stub \<equiv> stub_client"

abbreviation comment_stub ::
  "string list \<Rightarrow> (nat \<Rightarrow> nat Comment_scheme option \<times> nat \<times> string option)
     \<Rightarrow> (unit, nat Comment_scheme, nat, string, nat) ProjectClient" where
  "comment_stub \<equiv> stub_client"

abbreviation task_stub ::
  "string list \<Rightarrow> (nat \<Rightarrow> nat option \<times> nat \<times> string option)
     \<Rightarrow> (unit, nat, nat, string, nat) ProjectClient" where
  "task_stub \<equiv> stub_client"

abbreviation answering :: "'a \<Rightarrow> nat \<Rightarrow> 'a" where
  "answering r \<equiv> scripted [] r"

abbreviation no_query :: IterationsQuery where
  "no_query \<equiv> \<lparr>Scope = [], Label = [], Limit = 0, Offset = 0\<rparr>"

abbreviation fresh_request :: Request where
  "fresh_request \<equiv> \<lparr>Header = Map.empty, Body = None\<rparr>"

subsection \<open>Properties of the formatting\<close>

lemma digit_value_digit_char: "d < 10 \<Longrightarrow> digit_value (digit_char d) = d"
proof -
  assume "d < 10"
  then have "d \<in> {0, 1, 2, 3, 4, 5, 6, 7, 8, 9}" by auto
  then show ?thesis
    by (auto simp: digit_value_def digit_char_def)
qed

lemma decimal_value_snoc:
  "decimal_value (s @ [c]) = 10 * decimal_value s + digit_value c"
  by (simp add: decimal_value_def)

lemma decimal_value_nat_digits: "decimal_value (nat_digits n) = n"
proof (induction n rule: nat_digits.induct)
  case (1 n)
  show ?case
  proof (cases "n < 10")
    case True
    then show ?thesis
      by (simp add: nat_digits.simps [of n] decimal_value_def digit_value_digit_char)
  next
    case False
    with 1 have "decimal_value (nat_digits (n div 10)) = n div 10" by simp
    with False show ?thesis
      by (simp add: nat_digits.simps [of n] decimal_value_snoc digit_value_digit_char)
  qed
qed

lemma nat_digits_not_Nil: "nat_digits n \<noteq> []"
  by (simp add: nat_digits.simps [of n])

lemma digit_char_not_minus: "d < 10 \<Longrightarrow> digit_char d \<noteq> CHR ''-''"
proof -
  assume "d < 10"
  then have "d \<in> {0, 1, 2, 3, 4, 5, 6, 7, 8, 9}" by auto
  then show ?thesis
    by (auto simp: digit_char_def)
qed

lemma hd_nat_digits_not_minus: "hd (nat_digits n) \<noteq> CHR ''-''"
proof (induction n rule: nat_digits.induct)
  case (1 n)
  show ?case
  proof (cases "n < 10")
    case True
    then show ?thesis
      by (simp add: nat_digits.simps [of n] digit_char_not_minus)
  next
    case False
    with 1 have "hd (nat_digits (n div 10)) \<noteq> CHR ''-''" by simp
    with False show ?thesis
      by (simp add: nat_digits.simps [of n] nat_digits_not_Nil)
  qed
qed

lemma parse_d_Sprintf_d: "parse_d (Sprintf_d n) = n"
proof (cases "n < 0")
  case True
  then show ?thesis
    by (simp add: parse_d_def Sprintf_d_def decimal_value_nat_digits)
next
  case False
  obtain c cs where cs: "nat_digits (nat n) = c # cs"
    using nat_digits_not_Nil [of "nat n"] by (cases "nat_digits (nat n)") auto
  with hd_nat_digits_not_minus [of "nat n"] have "c \<noteq> CHR ''-''" by simp
  moreover have "decimal_value (c # cs) = nat n"
    using decimal_value_nat_digits [of "nat n"] cs by simp
  ultimately show ?thesis
    using False cs by (simp add: parse_d_def Sprintf_d_def)
qed

lemma Sprintf_d_inj: "Sprintf_d m = Sprintf_d n \<Longrightarrow> m = n"
  by (metis parse_d_Sprintf_d)

subsection \<open>What each operation does, by the answers of the transport\<close>

lemma created_append: "created (xs @ ys) = created xs @ created ys"
  by (induction xs rule: created.induct) simp_all

lemma sent_append: "sent (xs @ ys) = sent xs @ sent ys"
  by (induction xs rule: sent.induct) simp_all

lemma createRequest_run:
  "createRequest p method path params (tr, s) =
     (fst (CreateRequest (conn p) method (projectPath p path) params s),
      (tr @ [CreateRequest_call method (projectPath p path) params],
       snd (CreateRequest (conn p) method (projectPath p path) params s)))"
  by (simp add: createRequest_def call_CreateRequest_def Let_def split: prod.splits)

lemma createRequest_eq:
  "CreateRequest (conn p) method (projectPath p path) params s = (r, s1) \<Longrightarrow>
   createRequest p method path params (tr, s) =
     (r, (tr @ [CreateRequest_call method (projectPath p path) params], s1))"
  by (simp add: createRequest_run)

lemma call_Do_eq:
  "Do c request dest s = (r, s1) \<Longrightarrow>
   call_Do c request dest (tr, s) = (r, (tr @ [Do_call request dest], s1))"
  by (simp add: call_Do_def)

lemma Iterations_create_failed:
  assumes "CreateRequest (conn p) ''GET'' (projectPath p ''/iterations'')
             (IterationsQuery_Query query) s = (Inl err, s1)"
  shows "Iterations p query (tr, s) =
           ((None, 0, Some err),
            (tr @ [CreateRequest_call ''GET'' (projectPath p ''/iterations'')
                     (IterationsQuery_Query query)], s1))"
  using assms by (simp add: Iterations_def createRequest_eq)

lemma Iterations_created:
  assumes "CreateRequest (conn p) ''GET'' (projectPath p ''/iterations'')
             (IterationsQuery_Query query) s = (Inr request, s1)"
    and "Do (conn p) request (Some None) s1 = ((written, pagination, err), s2)"
  shows "Iterations p query (tr, s) =
           ((case err of
               None \<Rightarrow> (assigned None written, pagination, None)
             | Some e \<Rightarrow> (None, 0, Some e)),
            (tr @ [CreateRequest_call ''GET'' (projectPath p ''/iterations'')
                     (IterationsQuery_Query query),
                   Do_call request (Some None)], s2))"
  using assms by (simp add: Iterations_def createRequest_eq call_Do_eq split: option.splits)

lemma Stories_create_failed:
  assumes "CreateRequest (conn p) ''GET'' (projectPath p ''/stories'') (Query query) s
             = (Inl err, s1)"
  shows "Stories Query p query (tr, s) =
           ((None, 0, Some err),
            (tr @ [CreateRequest_call ''GET'' (projectPath p ''/stories'') (Query query)], s1))"
  using assms by (simp add: Stories_def createRequest_eq)

lemma Stories_created:
  assumes "CreateRequest (conn p) ''GET'' (projectPath p ''/stories'') (Query query) s
             = (Inr request, s1)"
    and "Do (conn p) request (Some None) s1 = ((written, pagination, err), s2)"
  shows "Stories Query p query (tr, s) =
           ((case err of
               None \<Rightarrow> (assigned None written, pagination, None)
             | Some e \<Rightarrow> (None, 0, Some e)),
            (tr @ [CreateRequest_call ''GET'' (projectPath p ''/stories'') (Query query),
                   Do_call request (Some None)], s2))"
  using assms by (simp add: Stories_def createRequest_eq call_Do_eq split: option.splits)

lemma StoryActivity_create_failed:
  assumes "CreateRequest (conn p) ''GET''
             (projectPath p (''/stories/'' @ Sprintf_d storyId @ ''/activity'')) (Query query) s
             = (Inl err, s1)"
  shows "StoryActivity Query p storyId query (tr, s) =
           ((None, Some err),
            (tr @ [CreateRequest_call ''GET''
                     (projectPath p (''/stories/'' @ Sprintf_d storyId @ ''/activity''))
                     (Query query)], s1))"
  using assms by (simp add: StoryActivity_def createRequest_eq)

lemma StoryActivity_created:
  assumes "CreateRequest (conn p) ''GET''
             (projectPath p (''/stories/'' @ Sprintf_d storyId @ ''/activity'')) (Query query) s
             = (Inr request, s1)"
    and "Do (conn p) request (Some None) s1 = ((written, pagination, err), s2)"
  shows "StoryActivity Query p storyId query (tr, s) =
           ((assigned None written, err),
            (tr @ [CreateRequest_call ''GET''
                     (projectPath p (''/stories/'' @ Sprintf_d storyId @ ''/activity''))
                     (Query query),
                   Do_call request (Some None)], s2))"
  using assms by (simp add: StoryActivity_def createRequest_eq call_Do_eq)

lemma StoryTasks_create_failed:
  assumes "CreateRequest (conn p) ''GET''
             (projectPath p (''/stories/'' @ Sprintf_d storyId @ ''/tasks'')) (Query query) s
             = (Inl err, s1)"
  shows "StoryTasks Query p storyId query (tr, s) =
           ((None, Some err),
            (tr @ [CreateRequest_call ''GET''
                     (projectPath p (''/stories/'' @ Sprintf_d storyId @ ''/tasks''))
                     (Query query)], s1))"
  using assms by (simp add: StoryTasks_def createRequest_eq)

lemma StoryTasks_created:
  assumes "CreateRequest (conn p) ''GET''
             (projectPath p (''/stories/'' @ Sprintf_d storyId @ ''/tasks'')) (Query query) s
             = (Inr request, s1)"
    and "Do (conn p) request (Some None) s1 = ((written, pagination, err), s2)"
  shows "StoryTasks Query p storyId query (tr, s) =
           ((assigned None written, err),
            (tr @ [CreateRequest_call ''GET''
                     (projectPath p (''/stories/'' @ Sprintf_d storyId @ ''/tasks''))
                     (Query query),
                   Do_call request (Some None)], s2))"
  using assms by (simp add: StoryTasks_def createRequest_eq call_Do_eq)

lemma StoryComments_create_failed:
  assumes "CreateRequest (conn p) ''GET''
             (projectPath p (''/stories/'' @ Sprintf_d storyId @ ''/comments'')) (Query query) s
             = (Inl err, s1)"
  shows "StoryComments Query p storyId query (tr, s) =
           ((None, Some err),
            (tr @ [CreateRequest_call ''GET''
                     (projectPath p (''/stories/'' @ Sprintf_d storyId @ ''/comments''))
                     (Query query)], s1))"
  using assms by (simp add: StoryComments_def createRequest_eq)

lemma StoryComments_created:
  assumes "CreateRequest (conn p) ''GET''
             (projectPath p (''/stories/'' @ Sprintf_d storyId @ ''/comments'')) (Query query) s
             = (Inr request, s1)"
    and "Do (conn p) request (Some None) s1 = ((written, pagination, err), s2)"
  shows "StoryComments Query p storyId query (tr, s) =
           ((assigned None written, err),
            (tr @ [CreateRequest_call ''GET''
                     (projectPath p (''/stories/'' @ Sprintf_d storyId @ ''/comments''))
                     (Query query),
                   Do_call request (Some None)], s2))"
  using assms by (simp add: StoryComments_def createRequest_eq call_Do_eq)

lemma DeliverStory_create_failed:
  assumes "CreateRequest (conn p) ''PUT'' (projectPath p (''/stories/'' @ Sprintf_d storyId))
             None s = (Inl err, s1)"
  shows "DeliverStory p storyId (tr, s) =
           (Some err,
            (tr @ [CreateRequest_call ''PUT''
                     (projectPath p (''/stories/'' @ Sprintf_d storyId)) None], s1))"
  using assms by (simp add: DeliverStory_def createRequest_eq)

lemma DeliverStory_created:
  assumes "CreateRequest (conn p) ''PUT'' (projectPath p (''/stories/'' @ Sprintf_d storyId))
             None s = (Inr request, s1)"
    and \<open>Do (conn p) (addJSONBody p request ''{"current_state":"delivered"}'') None s1 =
           ((written, pagination, err), s2)\<close>
  shows \<open>DeliverStory p storyId (tr, s) =
           (err,
            (tr @ [CreateRequest_call ''PUT''
                     (projectPath p (''/stories/'' @ Sprintf_d storyId)) None,
                   Do_call (addJSONBody p request ''{"current_state":"delivered"}'') None],
             s2))\<close>
  using assms by (simp add: DeliverStory_def createRequest_eq call_Do_eq)

lemma DeliverStoryWithComment_delivery_failed:
  assumes "DeliverStory p storyId w = (Some err, w1)"
  shows "DeliverStoryWithComment Encode p storyId comment w = (Some err, w1)"
  using assms by (simp add: DeliverStoryWithComment_def)

lemma DeliverStoryWithComment_create_failed:
  assumes "DeliverStory p storyId w = (None, (tr1, s1))"
    and "CreateRequest (conn p) ''POST''
           (projectPath p (''/stories/'' @ Sprintf_d storyId @ ''/comments'')) None s1
           = (Inl err, s2)"
  shows "DeliverStoryWithComment Encode p storyId comment w =
           (Some err,
            (tr1 @ [CreateRequest_call ''POST''
                      (projectPath p (''/stories/'' @ Sprintf_d storyId @ ''/comments'')) None],
             s2))"
  using assms by (simp add: DeliverStoryWithComment_def createRequest_eq)

lemma DeliverStoryWithComment_created:
  assumes "DeliverStory p storyId w = (None, (tr1, s1))"
    and "CreateRequest (conn p) ''POST''
           (projectPath p (''/stories/'' @ Sprintf_d storyId @ ''/comments'')) None s1
           = (Inr request, s2)"
    and "Do (conn p)
           (addJSONBodyReader p request (fst (Encode \<lparr>Text = comment, \<dots> = 0\<rparr>))) None s2
           = ((written, pagination, err), s3)"
  shows "DeliverStoryWithComment Encode p storyId comment w =
           (err,
            (tr1 @ [CreateRequest_call ''POST''
                      (projectPath p (''/stories/'' @ Sprintf_d storyId @ ''/comments'')) None,
                    Do_call (addJSONBodyReader p request
                               (fst (Encode \<lparr>Text = comment, \<dots> = 0\<rparr>))) None],
             s3))"
  using assms by (simp add: DeliverStoryWithComment_def createRequest_eq call_Do_eq)

lemma CreateStory_create_failed:
  assumes "CreateRequest (conn p) ''POST'' (projectPath p ''/stories'') None s = (Inl err, s1)"
  shows "CreateStory Encode p story (tr, s) =
           ((Story_zero, Some err),
            (tr @ [CreateRequest_call ''POST'' (projectPath p ''/stories'') None], s1))"
  using assms by (simp add: CreateStory_def createRequest_eq)

lemma CreateStory_created:
  assumes "CreateRequest (conn p) ''POST'' (projectPath p ''/stories'') None s
             = (Inr request, s1)"
    and "Do (conn p) (addJSONBodyReader p request (fst (Encode story))) (Some Story_zero) s1
           = ((written, pagination, err), s2)"
  shows "CreateStory Encode p story (tr, s) =
           ((assigned Story_zero written, err),
            (tr @ [CreateRequest_call ''POST'' (projectPath p ''/stories'') None,
                   Do_call (addJSONBodyReader p request (fst (Encode story)))
                     (Some Story_zero)], s2))"
  using assms by (simp add: CreateStory_def createRequest_eq call_Do_eq)

lemma UpdateStory_create_failed:
  assumes "CreateRequest (conn p) ''PUT'' (projectPath p (''/stories/'' @ Sprintf_d (ID story)))
             None s = (Inl err, s1)"
  shows "UpdateStory Encode p story (tr, s) =
           ((Story_zero, Some err),
            (tr @ [CreateRequest_call ''PUT''
                     (projectPath p (''/stories/'' @ Sprintf_d (ID story))) None], s1))"
  using assms by (simp add: UpdateStory_def createRequest_eq)

lemma UpdateStory_created:
  assumes "CreateRequest (conn p) ''PUT'' (projectPath p (''/stories/'' @ Sprintf_d (ID story)))
             None s = (Inr request, s1)"
    and "Do (conn p) (addJSONBodyReader p request (fst (Encode story))) (Some Story_zero) s1
           = ((written, pagination, err), s2)"
  shows "UpdateStory Encode p story (tr, s) =
           ((assigned Story_zero written, None),
            (tr @ [CreateRequest_call ''PUT''
                     (projectPath p (''/stories/'' @ Sprintf_d (ID story))) None,
                   Do_call (addJSONBodyReader p request (fst (Encode story)))
                     (Some Story_zero)], s2))"
  using assms by (simp add: UpdateStory_def createRequest_eq call_Do_eq)

lemma DeleteStory_create_failed:
  assumes "CreateRequest (conn p) ''DELETE'' (projectPath p (''/stories/'' @ Sprintf_d storyId))
             None s = (Inl err, s1)"
  shows "DeleteStory p storyId (tr, s) =
           (Some err,
            (tr @ [CreateRequest_call ''DELETE''
                     (projectPath p (''/stories/'' @ Sprintf_d storyId)) None], s1))"
  using assms by (simp add: DeleteStory_def createRequest_eq)

lemma DeleteStory_created:
  assumes "CreateRequest (conn p) ''DELETE'' (projectPath p (''/stories/'' @ Sprintf_d storyId))
             None s = (Inr request, s1)"
    and "Do (conn p) request None s1 = ((written, pagination, err), s2)"
  shows "DeleteStory p storyId (tr, s) =
           (err,
            (tr @ [CreateRequest_call ''DELETE''
                     (projectPath p (''/stories/'' @ Sprintf_d storyId)) None,
                   Do_call request None], s2))"
  using assms by (simp add: DeleteStory_def createRequest_eq call_Do_eq)

lemma CreateTask_create_failed:
  assumes "CreateRequest (conn p) ''POST''
             (projectPath p (''/stories/'' @ Sprintf_d storyID @ ''/tasks'')) None s
             = (Inl err, s1)"
  shows "CreateTask Encode p storyID task (tr, s) =
           ((0, Some err),
            (tr @ [CreateRequest_call ''POST''
                     (projectPath p (''/stories/'' @ Sprintf_d storyID @ ''/tasks'')) None],
             s1))"
  using assms by (simp add: CreateTask_def createRequest_eq)

lemma CreateTask_created:
  assumes "CreateRequest (conn p) ''POST''
             (projectPath p (''/stories/'' @ Sprintf_d storyID @ ''/tasks'')) None s
             = (Inr request, s1)"
    and "Do (conn p) (addJSONBodyReader p request (fst (Encode task))) (Some 0) s1
           = ((written, pagination, err), s2)"
  shows "CreateTask Encode p storyID task (tr, s) =
           ((assigned 0 written, err),
            (tr @ [CreateRequest_call ''POST''
                     (projectPath p (''/stories/'' @ Sprintf_d storyID @ ''/tasks'')) None,
                   Do_call (addJSONBodyReader p request (fst (Encode task))) (Some 0)], s2))"
  using assms by (simp add: CreateTask_def createRequest_eq call_Do_eq)

lemma CreateComment_create_failed:
  assumes "CreateRequest (conn p) ''POST''
             (projectPath p (''/stories/'' @ Sprintf_d storyID @ ''/comments'')) None s
             = (Inl err, s1)"
  shows "CreateComment Encode p storyID comment (tr, s) =
           ((Comment_zero, Some err),
            (tr @ [CreateRequest_call ''POST''
                     (projectPath p (''/stories/'' @ Sprintf_d storyID @ ''/comments'')) None],
             s1))"
  using assms by (simp add: CreateComment_def createRequest_eq)

lemma CreateComment_created:
  assumes "CreateRequest (conn p) ''POST''
             (projectPath p (''/stories/'' @ Sprintf_d storyID @ ''/comments'')) None s
             = (Inr request, s1)"
    and "Do (conn p) (addJSONBodyReader p request (fst (Encode comment))) (Some Comment_zero) s1
           = ((written, pagination, err), s2)"
  shows "CreateComment Encode p storyID comment (tr, s) =
           ((assigned Comment_zero written, err),
            (tr @ [CreateRequest_call ''POST''
                     (projectPath p (''/stories/'' @ Sprintf_d storyID @ ''/comments'')) None,
                   Do_call (addJSONBodyReader p request (fst (Encode comment)))
                     (Some Comment_zero)], s2))"
  using assms by (simp add: CreateComment_def createRequest_eq call_Do_eq)

lemma CreateBlocker_create_failed:
  assumes "CreateRequest (conn p) ''POST''
             (projectPath p (''/stories/'' @ Sprintf_d storyID @ ''/blockers'')) None s
             = (Inl err, s1)"
  shows "CreateBlocker Encode p storyID blocker (tr, s) =
           ((0, Some err),
            (tr @ [CreateRequest_call ''POST''
                     (projectPath p (''/stories/'' @ Sprintf_d storyID @ ''/blockers'')) None],
             s1))"
  using assms by (simp add: CreateBlocker_def createRequest_eq)

lemma CreateBlocker_created:
  assumes "CreateRequest (conn p) ''POST''
             (projectPath p (''/stories/'' @ Sprintf_d storyID @ ''/blockers'')) None s
             = (Inr request, s1)"
    and "Do (conn p) (addJSONBodyReader p request (fst (Encode blocker))) (Some 0) s1
           = ((written, pagination, err), s2)"
  shows "CreateBlocker Encode p storyID blocker (tr, s) =
           ((assigned 0 written, err),
            (tr @ [CreateRequest_call ''POST''
                     (projectPath p (''/stories/'' @ Sprintf_d storyID @ ''/blockers'')) None,
                   Do_call (addJSONBodyReader p request (fst (Encode blocker))) (Some 0)],
             s2))"
  using assms by (simp add: CreateBlocker_def createRequest_eq call_Do_eq)

lemma ProjectMemberships_create_failed:
  assumes "CreateRequest (conn p) ''GET'' (projectPath p ''/memberships'') None s
             = (Inl err, s1)"
  shows "ProjectMemberships p (tr, s) =
           ((Some [], Some err),
            (tr @ [CreateRequest_call ''GET'' (projectPath p ''/memberships'') None], s1))"
  using assms by (simp add: ProjectMemberships_def createRequest_eq)

lemma ProjectMemberships_created:
  assumes "CreateRequest (conn p) ''GET'' (projectPath p ''/memberships'') None s
             = (Inr request, s1)"
    and "Do (conn p) request (Some None) s1 = ((written, pagination, err), s2)"
  shows "ProjectMemberships p (tr, s) =
           ((case err of
               None \<Rightarrow> (assigned None written, None)
             | Some e \<Rightarrow> (Some [], Some e)),
            (tr @ [CreateRequest_call ''GET'' (projectPath p ''/memberships'') None,
                   Do_call request (Some None)], s2))"
  using assms
  by (simp add: ProjectMemberships_def createRequest_eq call_Do_eq split: option.splits)

subsection \<open>The parameters of an iterations query\<close>

text \<open>
  Claim C3. For every \<^verbatim>\<open>IterationsQuery\<close>, the parameter map built by \<^verbatim>\<open>Query\<close> has the
  key \<^verbatim>\<open>scope\<close>, \<^verbatim>\<open>label\<close>, \<^verbatim>\<open>limit\<close>, \<^verbatim>\<open>offset\<close> exactly when the field Scope, Label,
  Limit, Offset is not the zero value of its type, with the field as the single value, a
  number printed in base 10 (reading the printed text back as a decimal numeral gives the
  number); no other key is present, and the zero query gives the empty map.
\<close>

theorem IterationsQuery_Query_keys:
  "IterationsQuery_Query query =
     Some (\<lambda>key.
       if key = ''offset'' \<and> Offset query \<noteq> 0 then Some [Sprintf_d (Offset query)]
       else if key = ''limit'' \<and> Limit query \<noteq> 0 then Some [Sprintf_d (Limit query)]
       else if key = ''label'' \<and> Label query \<noteq> '''' then Some [Label query]
       else if key = ''scope'' \<and> Scope query \<noteq> '''' then Some [Scope query]
       else None)
   \<and> dom (the (IterationsQuery_Query query)) =
       (if Scope query \<noteq> '''' then {''scope''} else {}) \<union>
       (if Label query \<noteq> '''' then {''label''} else {}) \<union>
       (if Limit query \<noteq> 0 then {''limit''} else {}) \<union>
       (if Offset query \<noteq> 0 then {''offset''} else {})
   \<and> parse_d (Sprintf_d (Limit query)) = Limit query
   \<and> parse_d (Sprintf_d (Offset query)) = Offset query
   \<and> IterationsQuery_Query \<lparr>Scope = '''', Label = '''', Limit = 0, Offset = 0\<rparr>
       = Some Map.empty"
proof -
  have eq: "IterationsQuery_Query query =
     Some (\<lambda>key.
       if key = ''offset'' \<and> Offset query \<noteq> 0 then Some [Sprintf_d (Offset query)]
       else if key = ''limit'' \<and> Limit query \<noteq> 0 then Some [Sprintf_d (Limit query)]
       else if key = ''label'' \<and> Label query \<noteq> '''' then Some [Label query]
       else if key = ''scope'' \<and> Scope query \<noteq> '''' then Some [Scope query]
       else None)"
    by (auto simp: IterationsQuery_Query_def Values_Set_def Let_def fun_eq_iff)
  have d: "dom (the (IterationsQuery_Query query)) =
       (if Scope query \<noteq> '''' then {''scope''} else {}) \<union>
       (if Label query \<noteq> '''' then {''label''} else {}) \<union>
       (if Limit query \<noteq> 0 then {''limit''} else {}) \<union>
       (if Offset query \<noteq> 0 then {''offset''} else {})"
    by (auto simp: IterationsQuery_Query_def Values_Set_def Let_def)
  have z: "IterationsQuery_Query \<lparr>Scope = '''', Label = '''', Limit = 0, Offset = 0\<rparr>
             = Some Map.empty"
    by (simp add: IterationsQuery_Query_def)
  from eq d z show ?thesis
    by (simp only: parse_d_Sprintf_d simp_thms)
qed

subsection \<open>Running the operations on the stub transport\<close>

lemma Sprintf_d_7: "Sprintf_d 7 = ''7''"
  by (simp add: Sprintf_d_def nat_digits.simps digit_char_def)

lemma Sprintf_d_42: "Sprintf_d 42 = ''42''"
  by (simp add: Sprintf_d_def nat_digits.simps digit_char_def)

lemma Sprintf_d_10: "Sprintf_d 10 = ''10''"
  by (simp add: Sprintf_d_def nat_digits.simps digit_char_def)

lemma Sprintf_d_20: "Sprintf_d 20 = ''20''"
  by (simp add: Sprintf_d_def nat_digits.simps digit_char_def)

lemmas stub_simps =
  stub_def stub_client_def scripted_def encode_stub_def json_request_def
  addJSONBodyReader_def addJSONBody_def Header_Add_def assigned_def
  Story_zero_def Comment_zero_def Sprintf_d_7 Sprintf_d_42

lemmas run_defs =
  createRequest_def call_CreateRequest_def call_Do_def Let_def

subsection \<open>Errors of \<^verbatim>\<open>Do\<close>\<close>

text \<open>
  Claim C1 says that every resource operation returns an error of the transport's
  \<^verbatim>\<open>Do\<close> unchanged. \<^verbatim>\<open>UpdateStory\<close> does not: it ends with
  \<^verbatim>\<open>return updatedStory, nil\<close>. On the stub transport whose \<^verbatim>\<open>Do\<close> fails with
  \<^verbatim>\<open>server error\<close>, updating story 42 of project 7 makes the two calls, \<^verbatim>\<open>Do\<close> returns
  the error, and \<^verbatim>\<open>UpdateStory\<close> returns the zero story with a nil error;
  \<^verbatim>\<open>CreateStory\<close>, which differs in its last line only, returns the error on the same
  transport.
\<close>

theorem UpdateStory_drops_Do_error:
  "UpdateStory (encode_stub ''{}'' None)
     (stub_client [] (scripted [] (None, 0, Some ''server error'')))
     \<lparr>ID = 42, \<dots> = 0::nat\<rparr> ([], 0)
   = ((Story_zero, None),
      ([CreateRequest_call ''PUT'' ''/projects/7/stories/42'' None,
        Do_call (json_request ''{}'') (Some Story_zero)], 2))
   \<and> Do (conn (stub_client [] (scripted [] (None, 0, Some ''server error''))))
        (json_request ''{}'') (Some (Story_zero :: nat Story_scheme)) 1
       = ((None, 0, Some ''server error''), 2)
   \<and> CreateStory (encode_stub ''{}'' None)
        (stub_client [] (scripted [] (None, 0, Some ''server error'')))
        \<lparr>ID = 42, \<dots> = 0::nat\<rparr> ([], 0)
      = ((Story_zero, Some ''server error''),
         ([CreateRequest_call ''POST'' ''/projects/7/stories'' None,
           Do_call (json_request ''{}'') (Some Story_zero)], 2))"
  by (simp add: UpdateStory_def CreateStory_def run_defs stub_simps)

subsection \<open>Delivering a story\<close>

text \<open>
  Claim C5. For every story ID, \<^verbatim>\<open>DeliverStory\<close> creates one request, with method
  \<^verbatim>\<open>PUT\<close>, path \<^verbatim>\<open>/projects/{id}/stories/{storyId}\<close> and the nil parameter map; when the
  transport returns the request, the operation makes exactly one \<^verbatim>\<open>Do\<close> call, with that
  request carrying the body \<^verbatim>\<open>{"current_state":"delivered"}\<close> (and the JSON content
  type), and makes no other call. When the transport refuses to create the request,
  nothing is sent.
\<close>

theorem DeliverStory_single_request:
  \<open>(CreateRequest (conn p) ''PUT''
       (''/projects/'' @ Sprintf_d (id' p) @ ''/stories/'' @ Sprintf_d storyId) None s
       = (Inr request, s') \<longrightarrow>
     fst (snd (DeliverStory p storyId (tr, s))) =
       tr @ [CreateRequest_call ''PUT''
               (''/projects/'' @ Sprintf_d (id' p) @ ''/stories/'' @ Sprintf_d storyId) None,
             Do_call (request\<lparr>Header := Header_Add (Header request) ''Content-Type''
                                         ''application/json'',
                              Body := Some ''{"current_state":"delivered"}''\<rparr>) None])
   \<and> (CreateRequest (conn p) ''PUT''
       (''/projects/'' @ Sprintf_d (id' p) @ ''/stories/'' @ Sprintf_d storyId) None s
       = (Inl err, s') \<longrightarrow>
     DeliverStory p storyId (tr, s) =
       (Some err,
        tr @ [CreateRequest_call ''PUT''
               (''/projects/'' @ Sprintf_d (id' p) @ ''/stories/'' @ Sprintf_d storyId) None],
        s'))\<close>
proof -
  obtain r s2 where
    d: \<open>Do (conn p) (addJSONBody p request ''{"current_state":"delivered"}'') None s' = (r, s2)\<close>
    by (cases \<open>Do (conn p) (addJSONBody p request ''{"current_state":"delivered"}'') None s'\<close>)
  obtain written pagination err' where r: "r = (written, pagination, err')"
    by (cases r)
  show ?thesis
    using DeliverStory_created [of p storyId s request s' written pagination err' s2 tr]
      DeliverStory_create_failed [of p storyId s err s' tr] d r
    by (simp add: addJSONBody_def addJSONBodyReader_def)
qed

theorem DeliverStory_single_request_witness:
  \<open>DeliverStory
     (stub_client [] (scripted [] (None, 0, None)) :: (unit, unit, nat, string, nat) ProjectClient)
     42 ([], 0) =
     (None,
      [CreateRequest_call ''PUT'' ''/projects/7/stories/42'' None,
       Do_call (json_request ''{"current_state":"delivered"}'') None], 2)
   \<and> DeliverStory
     (stub_client [''PUT''] (scripted [] (None, 0, None))
        :: (unit, unit, nat, string, nat) ProjectClient)
     42 ([], 0) =
     (Some ''cannot create request'',
      [CreateRequest_call ''PUT'' ''/projects/7/stories/42'' None], 1)\<close>
proof -
  let ?p = "stub_client [] (scripted [] (None, 0, None))
              :: (unit, unit, nat, string, nat) ProjectClient"
  let ?q = "stub_client [''PUT''] (scripted [] (None, 0, None))
              :: (unit, unit, nat, string, nat) ProjectClient"
  have ok: "CreateRequest (conn ?p) ''PUT''
              (''/projects/'' @ Sprintf_d (id' ?p) @ ''/stories/'' @ Sprintf_d 42) None 0
            = (Inr \<lparr>Header = Map.empty, Body = None\<rparr>, 1)"
    by (simp add: stub_simps)
  have refused: "CreateRequest (conn ?q) ''PUT''
              (''/projects/'' @ Sprintf_d (id' ?q) @ ''/stories/'' @ Sprintf_d 42) None 0
            = (Inl ''cannot create request'', 1)"
    by (simp add: stub_simps)
  have sent_one: \<open>fst (snd (DeliverStory ?p 42 ([], 0))) =
      [CreateRequest_call ''PUT'' ''/projects/7/stories/42'' None,
       Do_call (json_request ''{"current_state":"delivered"}'') None]\<close>
    using DeliverStory_single_request
      [where p = ?p and storyId = 42 and s = 0 and tr = "[]" and s' = 1
         and request = "\<lparr>Header = Map.empty, Body = None\<rparr>"] ok
    by (simp add: stub_simps)
  have rest: "fst (DeliverStory ?p 42 ([], 0)) = None
      \<and> snd (snd (DeliverStory ?p 42 ([], 0))) = 2"
    by (simp add: DeliverStory_def run_defs stub_simps)
  have none_sent: "DeliverStory ?q 42 ([], 0) =
     (Some ''cannot create request'',
      [CreateRequest_call ''PUT'' ''/projects/7/stories/42'' None], 1)"
    using DeliverStory_single_request
      [where p = ?q and storyId = 42 and s = 0 and tr = "[]" and s' = 1
         and err = "''cannot create request''"] refused
    by (simp add: stub_simps)
  from sent_one rest none_sent show ?thesis
    by (simp add: prod_eq_iff)
qed

subsection \<open>The project prefix\<close>

lemma conn_with_pagination [simp]:
  "CreateRequest (with_pagination f c) = CreateRequest c"
  "Do (with_pagination f c) request dest s =
     (case Do c request dest s of
        ((written, pagination, err), s') \<Rightarrow> ((written, f pagination, err), s'))"
  by (simp_all add: with_pagination_def)

text \<open>
  Claim C2. For every method and every relative path, \<^verbatim>\<open>createRequest\<close> calls the
  transport's \<^verbatim>\<open>CreateRequest\<close> with the same method and parameters and with the path
  \<^verbatim>\<open>/projects/\<close>, the decimal project ID of the client, then the relative path, and returns
  what the transport returns. Every public operation creates its requests this way: the
  \<^verbatim>\<open>CreateRequest\<close> calls an operation adds to the calls made so far are listed below, each
  with the prefixed path (\<^verbatim>\<open>DeliverStoryWithComment\<close> makes the second one only after a
  successful delivery).
\<close>

theorem createRequest_prefixes_project_path:
  "createRequest p method path params (tr, s) =
     (fst (CreateRequest (conn p) method (''/projects/'' @ Sprintf_d (id' p) @ path) params s),
      (tr @ [CreateRequest_call method (''/projects/'' @ Sprintf_d (id' p) @ path) params],
       snd (CreateRequest (conn p) method (''/projects/'' @ Sprintf_d (id' p) @ path) params s)))
   \<and> created (fst (snd (Iterations pi iq (tri, si)))) =
       created tri @ [(''GET'', ''/projects/'' @ Sprintf_d (id' pi) @ ''/iterations'',
                       IterationsQuery_Query iq)]
   \<and> created (fst (snd (Stories Qs ps qs (trs, ss)))) =
       created trs @ [(''GET'', ''/projects/'' @ Sprintf_d (id' ps) @ ''/stories'', Qs qs)]
   \<and> created (fst (snd (StoryActivity Qa pa storyId qa (tra, sa)))) =
       created tra @ [(''GET'', ''/projects/'' @ Sprintf_d (id' pa) @ ''/stories/''
                         @ Sprintf_d storyId @ ''/activity'', Qa qa)]
   \<and> created (fst (snd (StoryTasks Qt pt storyId qt (trt, st)))) =
       created trt @ [(''GET'', ''/projects/'' @ Sprintf_d (id' pt) @ ''/stories/''
                         @ Sprintf_d storyId @ ''/tasks'', Qt qt)]
   \<and> created (fst (snd (StoryComments Qc pc storyId qc (trc, sc)))) =
       created trc @ [(''GET'', ''/projects/'' @ Sprintf_d (id' pc) @ ''/stories/''
                         @ Sprintf_d storyId @ ''/comments'', Qc qc)]
   \<and> created (fst (snd (DeliverStory pd storyId (trd, sd)))) =
       created trd @ [(''PUT'', ''/projects/'' @ Sprintf_d (id' pd) @ ''/stories/''
                         @ Sprintf_d storyId, None)]
   \<and> created (fst (snd (DeliverStoryWithComment Ew pd storyId comment (trd, sd)))) =
       created trd @
         (''PUT'', ''/projects/'' @ Sprintf_d (id' pd) @ ''/stories/'' @ Sprintf_d storyId, None)
         # (case fst (DeliverStory pd storyId (trd, sd)) of
              Some err \<Rightarrow> []
            | None \<Rightarrow> [(''POST'', ''/projects/'' @ Sprintf_d (id' pd) @ ''/stories/''
                                    @ Sprintf_d storyId @ ''/comments'', None)])
   \<and> created (fst (snd (CreateStory Es pcs story (trcs, scs)))) =
       created trcs @ [(''POST'', ''/projects/'' @ Sprintf_d (id' pcs) @ ''/stories'', None)]
   \<and> created (fst (snd (UpdateStory Es pcs story (trcs, scs)))) =
       created trcs @ [(''PUT'', ''/projects/'' @ Sprintf_d (id' pcs) @ ''/stories/''
                          @ Sprintf_d (ID story), None)]
   \<and> created (fst (snd (DeleteStory pd storyId (trd, sd)))) =
       created trd @ [(''DELETE'', ''/projects/'' @ Sprintf_d (id' pd) @ ''/stories/''
                         @ Sprintf_d storyId, None)]
   \<and> created (fst (snd (CreateTask Et pct storyId task (trct, sct)))) =
       created trct @ [(''POST'', ''/projects/'' @ Sprintf_d (id' pct) @ ''/stories/''
                          @ Sprintf_d storyId @ ''/tasks'', None)]
   \<and> created (fst (snd (CreateComment Ec pcc storyId cmt (trcc, scc)))) =
       created trcc @ [(''POST'', ''/projects/'' @ Sprintf_d (id' pcc) @ ''/stories/''
                          @ Sprintf_d storyId @ ''/comments'', None)]
   \<and> created (fst (snd (CreateBlocker Eb pcb storyId blocker (trcb, scb)))) =
       created trcb @ [(''POST'', ''/projects/'' @ Sprintf_d (id' pcb) @ ''/stories/''
                          @ Sprintf_d storyId @ ''/blockers'', None)]
   \<and> created (fst (snd (ProjectMemberships pm (trm, sm)))) =
       created trm @ [(''GET'', ''/projects/'' @ Sprintf_d (id' pm) @ ''/memberships'', None)]"
proof -
  note splits = prod.splits sum.splits option.splits
  have c0: "createRequest p method path params (tr, s) =
     (fst (CreateRequest (conn p) method (''/projects/'' @ Sprintf_d (id' p) @ path) params s),
      (tr @ [CreateRequest_call method (''/projects/'' @ Sprintf_d (id' p) @ path) params],
       snd (CreateRequest (conn p) method (''/projects/'' @ Sprintf_d (id' p) @ path) params s)))"
    by (rule createRequest_run)
  have c1: "created (fst (snd (Iterations pi iq (tri, si)))) =
       created tri @ [(''GET'', ''/projects/'' @ Sprintf_d (id' pi) @ ''/iterations'',
                       IterationsQuery_Query iq)]"
    by (simp add: Iterations_def createRequest_run call_Do_def Let_def created_append split: splits)
  have c2: "created (fst (snd (Stories Qs ps qs (trs, ss)))) =
       created trs @ [(''GET'', ''/projects/'' @ Sprintf_d (id' ps) @ ''/stories'', Qs qs)]"
    by (simp add: Stories_def createRequest_run call_Do_def Let_def created_append split: splits)
  have c3: "created (fst (snd (StoryActivity Qa pa storyId qa (tra, sa)))) =
       created tra @ [(''GET'', ''/projects/'' @ Sprintf_d (id' pa) @ ''/stories/''
                         @ Sprintf_d storyId @ ''/activity'', Qa qa)]"
    by (simp add: StoryActivity_def createRequest_run call_Do_def Let_def created_append split: splits)
  have c4: "created (fst (snd (StoryTasks Qt pt storyId qt (trt, st)))) =
       created trt @ [(''GET'', ''/projects/'' @ Sprintf_d (id' pt) @ ''/stories/''
                         @ Sprintf_d storyId @ ''/tasks'', Qt qt)]"
    by (simp add: StoryTasks_def createRequest_run call_Do_def Let_def created_append split: splits)
  have c5: "created (fst (snd (StoryComments Qc pc storyId qc (trc, sc)))) =
       created trc @ [(''GET'', ''/projects/'' @ Sprintf_d (id' pc) @ ''/stories/''
                         @ Sprintf_d storyId @ ''/comments'', Qc qc)]"
    by (simp add: StoryComments_def createRequest_run call_Do_def Let_def created_append split: splits)
  have c6: "created (fst (snd (DeliverStory pd storyId (trd, sd)))) =
       created trd @ [(''PUT'', ''/projects/'' @ Sprintf_d (id' pd) @ ''/stories/''
                         @ Sprintf_d storyId, None)]"
    by (simp add: DeliverStory_def createRequest_run call_Do_def Let_def created_append split: splits)
  have c7: "created (fst (snd (DeliverStoryWithComment Ew pd storyId comment (trd, sd)))) =
       created trd @
         (''PUT'', ''/projects/'' @ Sprintf_d (id' pd) @ ''/stories/'' @ Sprintf_d storyId, None)
         # (case fst (DeliverStory pd storyId (trd, sd)) of
              Some err \<Rightarrow> []
            | None \<Rightarrow> [(''POST'', ''/projects/'' @ Sprintf_d (id' pd) @ ''/stories/''
                                    @ Sprintf_d storyId @ ''/comments'', None)])"
  proof (cases "DeliverStory pd storyId (trd, sd)")
    case (fields e tr' s')
    with c6 have tr': "created tr' =
        created trd @ [(''PUT'', ''/projects/'' @ Sprintf_d (id' pd) @ ''/stories/''
                         @ Sprintf_d storyId, None)]"
      by simp
    show ?thesis
      using fields tr'
      by (simp add: DeliverStoryWithComment_def createRequest_run call_Do_def Let_def created_append
          split: splits)
  qed
  have c8: "created (fst (snd (CreateStory Es pcs story (trcs, scs)))) =
       created trcs @ [(''POST'', ''/projects/'' @ Sprintf_d (id' pcs) @ ''/stories'', None)]"
    by (simp add: CreateStory_def createRequest_run call_Do_def Let_def created_append split: splits)
  have c9: "created (fst (snd (UpdateStory Es pcs story (trcs, scs)))) =
       created trcs @ [(''PUT'', ''/projects/'' @ Sprintf_d (id' pcs) @ ''/stories/''
                          @ Sprintf_d (ID story), None)]"
    by (simp add: UpdateStory_def createRequest_run call_Do_def Let_def created_append split: splits)
  have c10: "created (fst (snd (DeleteStory pd storyId (trd, sd)))) =
       created trd @ [(''DELETE'', ''/projects/'' @ Sprintf_d (id' pd) @ ''/stories/''
                         @ Sprintf_d storyId, None)]"
    by (simp add: DeleteStory_def createRequest_run call_Do_def Let_def created_append split: splits)
  have c11: "created (fst (snd (CreateTask Et pct storyId task (trct, sct)))) =
       created trct @ [(''POST'', ''/projects/'' @ Sprintf_d (id' pct) @ ''/stories/''
                          @ Sprintf_d storyId @ ''/tasks'', None)]"
    by (simp add: CreateTask_def createRequest_run call_Do_def Let_def created_append split: splits)
  have c12: "created (fst (snd (CreateComment Ec pcc storyId cmt (trcc, scc)))) =
       created trcc @ [(''POST'', ''/projects/'' @ Sprintf_d (id' pcc) @ ''/stories/''
                          @ Sprintf_d storyId @ ''/comments'', None)]"
    by (simp add: CreateComment_def createRequest_run call_Do_def Let_def created_append split: splits)
  have c13: "created (fst (snd (CreateBlocker Eb pcb storyId blocker (trcb, scb)))) =
       created trcb @ [(''POST'', ''/projects/'' @ Sprintf_d (id' pcb) @ ''/stories/''
                          @ Sprintf_d storyId @ ''/blockers'', None)]"
    by (simp add: CreateBlocker_def createRequest_run call_Do_def Let_def created_append split: splits)
  have c14: "created (fst (snd (ProjectMemberships pm (trm, sm)))) =
       created trm @ [(''GET'', ''/projects/'' @ Sprintf_d (id' pm) @ ''/memberships'', None)]"
    by (simp add: ProjectMemberships_def createRequest_run call_Do_def Let_def created_append
        split: splits)
  from c0 c1 c2 c3 c4 c5 c6 c7 c8 c9 c10 c11 c12 c13 c14 show ?thesis
    by (intro conjI)
qed

subsection \<open>Delivering a story with a comment\<close>

text \<open>
  Claim C4. When the delivery step of \<^verbatim>\<open>DeliverStoryWithComment\<close> returns an error, the
  composite returns that error and leaves the transport as \<^verbatim>\<open>DeliverStory\<close> left it: no
  call is made for the comment (and \<^verbatim>\<open>DeliverStory\<close> itself makes one
  \<^verbatim>\<open>CreateRequest\<close> call and at most one \<^verbatim>\<open>Do\<close> call). When the delivery succeeds and the
  comment cannot be posted, because its request cannot be created or because its \<^verbatim>\<open>Do\<close>
  fails, that error is returned and the failing call is the last call made: nothing is
  sent to undo the delivery.
\<close>

theorem DeliverStoryWithComment_sequence:
  "(DeliverStory p storyId w = (Some err, w') \<longrightarrow>
      DeliverStoryWithComment Encode p storyId comment w = (Some err, w'))
   \<and> length (created (fst (snd (DeliverStory p storyId (tr, s))))) = length (created tr) + 1
   \<and> length (sent (fst (snd (DeliverStory p storyId (tr, s))))) \<le> length (sent tr) + 1
   \<and> (DeliverStory p storyId w = (None, (tra, sa))
       \<and> CreateRequest (conn p) ''POST''
            (''/projects/'' @ Sprintf_d (id' p) @ ''/stories/'' @ Sprintf_d storyId
               @ ''/comments'') None sa = (Inl err, sb) \<longrightarrow>
      DeliverStoryWithComment Encode p storyId comment w =
        (Some err,
         (tra @ [CreateRequest_call ''POST''
                   (''/projects/'' @ Sprintf_d (id' p) @ ''/stories/'' @ Sprintf_d storyId
                      @ ''/comments'') None], sb)))
   \<and> (DeliverStory p storyId w = (None, (tra, sa))
       \<and> CreateRequest (conn p) ''POST''
            (''/projects/'' @ Sprintf_d (id' p) @ ''/stories/'' @ Sprintf_d storyId
               @ ''/comments'') None sa = (Inr request, sb)
       \<and> Do (conn p)
            (addJSONBodyReader p request (fst (Encode \<lparr>Text = comment, \<dots> = 0\<rparr>))) None sb
            = ((written, pagination, Some err), sc) \<longrightarrow>
      DeliverStoryWithComment Encode p storyId comment w =
        (Some err,
         (tra @ [CreateRequest_call ''POST''
                   (''/projects/'' @ Sprintf_d (id' p) @ ''/stories/'' @ Sprintf_d storyId
                      @ ''/comments'') None,
                 Do_call (addJSONBodyReader p request
                            (fst (Encode \<lparr>Text = comment, \<dots> = 0\<rparr>))) None], sc)))"
proof -
  have calls:
    "length (created (fst (snd (DeliverStory p storyId (tr, s))))) = length (created tr) + 1"
    "length (sent (fst (snd (DeliverStory p storyId (tr, s))))) \<le> length (sent tr) + 1"
    by (simp_all add: DeliverStory_def createRequest_run call_Do_def Let_def created_append
        sent_append split: prod.splits sum.splits option.splits)
  show ?thesis
    using calls DeliverStoryWithComment_delivery_failed [of p storyId w err w' Encode comment]
      DeliverStoryWithComment_create_failed [of p storyId w tra sa err sb Encode comment]
      DeliverStoryWithComment_created
        [of p storyId w tra sa request sb Encode comment written pagination "Some err" sc]
    by simp
qed

theorem DeliverStoryWithComment_sequence_witness:
  \<open>DeliverStoryWithComment (encode_stub ''{}'' None :: (nat Comment_scheme, string) encoder)
     (stub_client [] (scripted [] (None, 0, Some ''delivery failed''))
        :: (unit, unit, nat, string, nat) ProjectClient) 42 ''done'' ([], 0)
   = (Some ''delivery failed'',
      ([CreateRequest_call ''PUT'' ''/projects/7/stories/42'' None,
        Do_call (json_request ''{"current_state":"delivered"}'') None], 2))
   \<and> DeliverStoryWithComment (encode_stub ''{}'' None :: (nat Comment_scheme, string) encoder)
     (stub_client [''POST''] (scripted [] (None, 0, None))
        :: (unit, unit, nat, string, nat) ProjectClient) 42 ''done'' ([], 0)
   = (Some ''cannot create request'',
      ([CreateRequest_call ''PUT'' ''/projects/7/stories/42'' None,
        Do_call (json_request ''{"current_state":"delivered"}'') None,
        CreateRequest_call ''POST'' ''/projects/7/stories/42/comments'' None], 3))
   \<and> DeliverStoryWithComment (encode_stub ''{}'' None :: (nat Comment_scheme, string) encoder)
     (stub_client [] (scripted [(1, (None, 0, None))] (None, 0, Some ''comment failed''))
        :: (unit, unit, nat, string, nat) ProjectClient) 42 ''done'' ([], 0)
   = (Some ''comment failed'',
      ([CreateRequest_call ''PUT'' ''/projects/7/stories/42'' None,
        Do_call (json_request ''{"current_state":"delivered"}'') None,
        CreateRequest_call ''POST'' ''/projects/7/stories/42/comments'' None,
        Do_call (json_request ''{}'') None], 4))\<close>
proof -
  let ?E = "encode_stub ''{}'' None :: (nat Comment_scheme, string) encoder"
  let ?p = "stub_client [] (scripted [] (None, 0, Some ''delivery failed''))
              :: (unit, unit, nat, string, nat) ProjectClient"
  let ?q = "stub_client [''POST''] (scripted [] (None, 0, None))
              :: (unit, unit, nat, string, nat) ProjectClient"
  let ?r = "stub_client [] (scripted [(1, (None, 0, None))] (None, 0, Some ''comment failed''))
              :: (unit, unit, nat, string, nat) ProjectClient"
  let ?delivered = \<open>[CreateRequest_call ''PUT'' ''/projects/7/stories/42'' None,
        Do_call (json_request ''{"current_state":"delivered"}'') None]
        :: (unit, unit) call list\<close>
  have dp: "DeliverStory ?p 42 ([], 0) = (Some ''delivery failed'', (?delivered, 2))"
    by (simp add: DeliverStory_def run_defs stub_simps)
  have dq: "DeliverStory ?q 42 ([], 0) = (None, (?delivered, 2))"
    by (simp add: DeliverStory_def run_defs stub_simps)
  have dr: "DeliverStory ?r 42 ([], 0) = (None, (?delivered, 2))"
    by (simp add: DeliverStory_def run_defs stub_simps)
  have cq: "CreateRequest (conn ?q) ''POST''
              (''/projects/'' @ Sprintf_d (id' ?q) @ ''/stories/'' @ Sprintf_d 42 @ ''/comments'')
              None 2 = (Inl ''cannot create request'', 3)"
    by (simp add: stub_simps)
  have cr: "CreateRequest (conn ?r) ''POST''
              (''/projects/'' @ Sprintf_d (id' ?r) @ ''/stories/'' @ Sprintf_d 42 @ ''/comments'')
              None 2 = (Inr \<lparr>Header = Map.empty, Body = None\<rparr>, 3)"
    by (simp add: stub_simps)
  have er: "Do (conn ?r)
              (addJSONBodyReader ?r \<lparr>Header = Map.empty, Body = None\<rparr>
                 (fst (?E \<lparr>Text = ''done'', \<dots> = 0\<rparr>))) None 3
            = ((None, 0, Some ''comment failed''), 4)"
    by (simp add: stub_simps)
  have first: "DeliverStoryWithComment ?E ?p 42 ''done'' ([], 0)
                 = (Some ''delivery failed'', (?delivered, 2))"
    using DeliverStoryWithComment_sequence
      [where p = ?p and storyId = 42 and w = "([], 0)" and err = "''delivery failed''"
         and w' = "(?delivered, 2)" and Encode = ?E and comment = "''done''"] dp
    by simp
  have second: "DeliverStoryWithComment ?E ?q 42 ''done'' ([], 0)
     = (Some ''cannot create request'',
        (?delivered @ [CreateRequest_call ''POST'' ''/projects/7/stories/42/comments'' None], 3))"
    using DeliverStoryWithComment_sequence
      [where p = ?q and storyId = 42 and w = "([], 0)" and err = "''cannot create request''"
         and tra = ?delivered and sa = 2 and sb = 3 and Encode = ?E and comment = "''done''"]
      dq cq
    by (simp add: stub_simps)
  have third: "DeliverStoryWithComment ?E ?r 42 ''done'' ([], 0)
     = (Some ''comment failed'',
        (?delivered @ [CreateRequest_call ''POST'' ''/projects/7/stories/42/comments'' None,
                       Do_call (json_request ''{}'') None], 4))"
    using DeliverStoryWithComment_sequence
      [where p = ?r and storyId = 42 and w = "([], 0)" and err = "''comment failed''"
         and tra = ?delivered and sa = 2 and sb = 3 and sc = 4 and Encode = ?E
         and comment = "''done''" and request = "\<lparr>Header = Map.empty, Body = None\<rparr>"
         and written = None and pagination = 0]
      dr cr er
    by (simp add: stub_simps)
  from first second third show ?thesis
    by simp
qed

subsection \<open>Operations that drop the pagination\<close>


subsection \<open>Bodies and the content type\<close>

text \<open>
  Claim C6 says that every operation that attaches a body sets the \<^verbatim>\<open>Content-Type\<close>
  header of the request to \<^verbatim>\<open>application/json\<close>. The code calls
  \<^verbatim>\<open>request.Header.Add\<close>, which appends: on a transport whose \<^verbatim>\<open>CreateRequest\<close> returns
  a request that already carries \<^verbatim>\<open>text/plain\<close>, \<^verbatim>\<open>DeliverStory\<close> sends the request with
  the two values \<^verbatim>\<open>text/plain\<close>, \<^verbatim>\<open>application/json\<close>, and the value of the header
  (its first value) is still \<^verbatim>\<open>text/plain\<close>.
\<close>

theorem Content_Type_appended_not_set:
  \<open>CreateRequest
      (conn (stub_returning text_request (answering (None, 0, None))
               :: (unit, unit, nat, string, nat) ProjectClient))
      ''PUT'' ''/projects/7/stories/42'' None 0
     = (Inr text_request, 1)
   \<and> DeliverStory
       (stub_returning text_request (answering (None, 0, None))
          :: (unit, unit, nat, string, nat) ProjectClient) 42 ([], 0)
     = (None,
        ([CreateRequest_call ''PUT'' ''/projects/7/stories/42'' None,
          Do_call (text_json_request ''{"current_state":"delivered"}'') None], 2))
   \<and> Header (text_json_request ''{"current_state":"delivered"}'') ''Content-Type''
     = Some [''text/plain'', ''application/json'']
   \<and> Header_Get (Header (text_json_request ''{"current_state":"delivered"}'')) ''Content-Type''
     = ''text/plain''\<close>
  by (simp add: DeliverStory_def run_defs stub_returning_def text_request_def
      text_json_request_def scripted_def addJSONBody_def addJSONBodyReader_def Header_Add_def
      Header_Get_def Sprintf_d_7 Sprintf_d_42)

text \<open>
  Claim C6, amended. Attaching a body (\<^verbatim>\<open>addJSONBodyReader\<close>, and \<^verbatim>\<open>addJSONBody\<close>
  through it) sets the body and appends \<^verbatim>\<open>application/json\<close> to the values of the
  \<^verbatim>\<open>Content-Type\<close> header: the value of the header is then \<^verbatim>\<open>application/json\<close> when
  the created request carried no content type (it is the only value), and stays the
  first value the request carried otherwise. The GET and DELETE operations
  (\<^verbatim>\<open>Iterations\<close>, \<^verbatim>\<open>Stories\<close>, \<^verbatim>\<open>StoryActivity\<close>, \<^verbatim>\<open>StoryTasks\<close>,
  \<^verbatim>\<open>StoryComments\<close>, \<^verbatim>\<open>ProjectMemberships\<close>, \<^verbatim>\<open>DeleteStory\<close>) hand to \<^verbatim>\<open>Do\<close> the
  request exactly as the transport created it. The POST and PUT operations
  (\<^verbatim>\<open>CreateStory\<close>, \<^verbatim>\<open>UpdateStory\<close>, \<^verbatim>\<open>CreateTask\<close>, \<^verbatim>\<open>CreateComment\<close>,
  \<^verbatim>\<open>CreateBlocker\<close>, \<^verbatim>\<open>DeliverStory\<close>, the comment step of
  \<^verbatim>\<open>DeliverStoryWithComment\<close>) hand to \<^verbatim>\<open>Do\<close> the created request with a body attached.
  Each line below stands for itself: it holds for every client, call list and state.
\<close>

theorem bodies_and_content_type:
  \<open>Body (addJSONBodyReader p request body) = Some body
   \<and> Header (addJSONBodyReader p request body) ''Content-Type'' =
       Some ((case Header request ''Content-Type'' of None \<Rightarrow> [] | Some vs \<Rightarrow> vs)
             @ [''application/json''])
   \<and> Header_Get (Header (addJSONBodyReader p request body)) ''Content-Type'' =
       (case Header request ''Content-Type'' of
          None \<Rightarrow> ''application/json''
        | Some [] \<Rightarrow> ''application/json''
        | Some (v # vs) \<Rightarrow> v)
   \<and> (Header request ''Content-Type'' = None \<longrightarrow>
       Header (addJSONBodyReader p request body) ''Content-Type'' = Some [''application/json'']
       \<and> Header_Get (Header (addJSONBodyReader p request body)) ''Content-Type''
           = ''application/json'')
   \<and> addJSONBody p request body = addJSONBodyReader p request body
   \<and> (CreateRequest (conn p) ''GET'' (projectPath p ''/iterations'') (IterationsQuery_Query iq) s
         = (Inr request, s') \<longrightarrow>
       sent (fst (snd (Iterations p iq (tr, s)))) = sent tr @ [(request, Some None)])
   \<and> (CreateRequest (conn p) ''GET'' (projectPath p ''/stories'') (Query q) s
         = (Inr request, s') \<longrightarrow>
       sent (fst (snd (Stories Query p q (tr, s)))) = sent tr @ [(request, Some None)])
   \<and> (CreateRequest (conn p) ''GET''
         (projectPath p (''/stories/'' @ Sprintf_d storyId @ ''/activity'')) (Query q) s
         = (Inr request, s') \<longrightarrow>
       sent (fst (snd (StoryActivity Query p storyId q (tr, s)))) =
         sent tr @ [(request, Some None)])
   \<and> (CreateRequest (conn p) ''GET''
         (projectPath p (''/stories/'' @ Sprintf_d storyId @ ''/tasks'')) (Query q) s
         = (Inr request, s') \<longrightarrow>
       sent (fst (snd (StoryTasks Query p storyId q (tr, s)))) =
         sent tr @ [(request, Some None)])
   \<and> (CreateRequest (conn p) ''GET''
         (projectPath p (''/stories/'' @ Sprintf_d storyId @ ''/comments'')) (Query q) s
         = (Inr request, s') \<longrightarrow>
       sent (fst (snd (StoryComments Query p storyId q (tr, s)))) =
         sent tr @ [(request, Some None)])
   \<and> (CreateRequest (conn p) ''GET'' (projectPath p ''/memberships'') None s
         = (Inr request, s') \<longrightarrow>
       sent (fst (snd (ProjectMemberships p (tr, s)))) = sent tr @ [(request, Some None)])
   \<and> (CreateRequest (conn p) ''DELETE'' (projectPath p (''/stories/'' @ Sprintf_d storyId))
         None s = (Inr request, s') \<longrightarrow>
       sent (fst (snd (DeleteStory p storyId (tr, s)))) = sent tr @ [(request, None)])
   \<and> (CreateRequest (conn p) ''PUT'' (projectPath p (''/stories/'' @ Sprintf_d storyId))
         None s = (Inr request, s') \<longrightarrow>
       sent (fst (snd (DeliverStory p storyId (tr, s)))) =
         sent tr @ [(addJSONBodyReader p request ''{"current_state":"delivered"}'', None)])
   \<and> (DeliverStory p storyId (tr, s) = (None, (tra, sa))
       \<and> CreateRequest (conn p) ''POST''
           (projectPath p (''/stories/'' @ Sprintf_d storyId @ ''/comments'')) None sa
           = (Inr request, sb) \<longrightarrow>
       sent (fst (snd (DeliverStoryWithComment Ew p storyId comment (tr, s)))) =
         sent tra @ [(addJSONBodyReader p request (fst (Ew \<lparr>Text = comment, \<dots> = 0\<rparr>)),
                      None)])
   \<and> (CreateRequest (conn ps) ''POST'' (projectPath ps ''/stories'') None s
         = (Inr request, s') \<longrightarrow>
       sent (fst (snd (CreateStory Es ps story (trs, s)))) =
         sent trs @ [(addJSONBodyReader ps request (fst (Es story)), Some Story_zero)])
   \<and> (CreateRequest (conn ps) ''PUT'' (projectPath ps (''/stories/'' @ Sprintf_d (ID story)))
         None s = (Inr request, s') \<longrightarrow>
       sent (fst (snd (UpdateStory Es ps story (trs, s)))) =
         sent trs @ [(addJSONBodyReader ps request (fst (Es story)), Some Story_zero)])
   \<and> (CreateRequest (conn pt) ''POST''
         (projectPath pt (''/stories/'' @ Sprintf_d storyId @ ''/tasks'')) None s
         = (Inr request, s') \<longrightarrow>
       sent (fst (snd (CreateTask Et pt storyId task (trt, s)))) =
         sent trt @ [(addJSONBodyReader pt request (fst (Et task)), Some 0)])
   \<and> (CreateRequest (conn pc) ''POST''
         (projectPath pc (''/stories/'' @ Sprintf_d storyId @ ''/comments'')) None s
         = (Inr request, s') \<longrightarrow>
       sent (fst (snd (CreateComment Ec pc storyId cmt (trc, s)))) =
         sent trc @ [(addJSONBodyReader pc request (fst (Ec cmt)), Some Comment_zero)])
   \<and> (CreateRequest (conn pt) ''POST''
         (projectPath pt (''/stories/'' @ Sprintf_d storyId @ ''/blockers'')) None s
         = (Inr request, s') \<longrightarrow>
       sent (fst (snd (CreateBlocker Eb pt storyId blocker (trt, s)))) =
         sent trt @ [(addJSONBodyReader pt request (fst (Eb blocker)), Some 0)])\<close>
proof -
  note defs = createRequest_run call_Do_def Let_def sent_append
  note splits = prod.splits sum.splits option.splits
  have b1: "Body (addJSONBodyReader p request body) = Some body"
    by (simp add: addJSONBodyReader_def)
  have b2: "Header (addJSONBodyReader p request body) ''Content-Type'' =
       Some ((case Header request ''Content-Type'' of None \<Rightarrow> [] | Some vs \<Rightarrow> vs)
             @ [''application/json''])"
    by (simp add: addJSONBodyReader_def Header_Add_def)
  have b2': "Header_Get (Header (addJSONBodyReader p request body)) ''Content-Type'' =
       (case Header request ''Content-Type'' of
          None \<Rightarrow> ''application/json''
        | Some [] \<Rightarrow> ''application/json''
        | Some (v # vs) \<Rightarrow> v)"
    by (simp add: addJSONBodyReader_def Header_Add_def Header_Get_def
        split: option.splits list.splits)
  have b3: "Header request ''Content-Type'' = None \<longrightarrow>
       Header (addJSONBodyReader p request body) ''Content-Type'' = Some [''application/json'']
       \<and> Header_Get (Header (addJSONBodyReader p request body)) ''Content-Type''
           = ''application/json''"
    by (simp add: addJSONBodyReader_def Header_Add_def Header_Get_def)
  have b4: "addJSONBody p request body = addJSONBodyReader p request body"
    by (simp add: addJSONBody_def)
  have g1: "CreateRequest (conn p) ''GET'' (projectPath p ''/iterations'')
         (IterationsQuery_Query iq) s = (Inr request, s') \<longrightarrow>
       sent (fst (snd (Iterations p iq (tr, s)))) = sent tr @ [(request, Some None)]"
    by (simp add: Iterations_def defs split: splits)
  have g2: "CreateRequest (conn p) ''GET'' (projectPath p ''/stories'') (Query q) s
         = (Inr request, s') \<longrightarrow>
       sent (fst (snd (Stories Query p q (tr, s)))) = sent tr @ [(request, Some None)]"
    by (simp add: Stories_def defs split: splits)
  have g3: "CreateRequest (conn p) ''GET''
         (projectPath p (''/stories/'' @ Sprintf_d storyId @ ''/activity'')) (Query q) s
         = (Inr request, s') \<longrightarrow>
       sent (fst (snd (StoryActivity Query p storyId q (tr, s)))) =
         sent tr @ [(request, Some None)]"
    by (simp add: StoryActivity_def defs split: splits)
  have g4: "CreateRequest (conn p) ''GET''
         (projectPath p (''/stories/'' @ Sprintf_d storyId @ ''/tasks'')) (Query q) s
         = (Inr request, s') \<longrightarrow>
       sent (fst (snd (StoryTasks Query p storyId q (tr, s)))) =
         sent tr @ [(request, Some None)]"
    by (simp add: StoryTasks_def defs split: splits)
  have g5: "CreateRequest (conn p) ''GET''
         (projectPath p (''/stories/'' @ Sprintf_d storyId @ ''/comments'')) (Query q) s
         = (Inr request, s') \<longrightarrow>
       sent (fst (snd (StoryComments Query p storyId q (tr, s)))) =
         sent tr @ [(request, Some None)]"
    by (simp add: StoryComments_def defs split: splits)
  have g6: "CreateRequest (conn p) ''GET'' (projectPath p ''/memberships'') None s
         = (Inr request, s') \<longrightarrow>
       sent (fst (snd (ProjectMemberships p (tr, s)))) = sent tr @ [(request, Some None)]"
    by (simp add: ProjectMemberships_def defs split: splits)
  have g7: "CreateRequest (conn p) ''DELETE'' (projectPath p (''/stories/'' @ Sprintf_d storyId))
         None s = (Inr request, s') \<longrightarrow>
       sent (fst (snd (DeleteStory p storyId (tr, s)))) = sent tr @ [(request, None)]"
    by (simp add: DeleteStory_def defs split: splits)
  have u1: \<open>CreateRequest (conn p) ''PUT'' (projectPath p (''/stories/'' @ Sprintf_d storyId))
         None s = (Inr request, s') \<longrightarrow>
       sent (fst (snd (DeliverStory p storyId (tr, s)))) =
         sent tr @ [(addJSONBodyReader p request ''{"current_state":"delivered"}'', None)]\<close>
    by (simp add: DeliverStory_def addJSONBody_def defs split: splits)
  have u2: "DeliverStory p storyId (tr, s) = (None, (tra, sa))
       \<and> CreateRequest (conn p) ''POST''
           (projectPath p (''/stories/'' @ Sprintf_d storyId @ ''/comments'')) None sa
           = (Inr request, sb) \<longrightarrow>
       sent (fst (snd (DeliverStoryWithComment Ew p storyId comment (tr, s)))) =
         sent tra @ [(addJSONBodyReader p request (fst (Ew \<lparr>Text = comment, \<dots> = 0\<rparr>)),
                      None)]"
    by (simp add: DeliverStoryWithComment_def defs split: splits)
  have u3: "CreateRequest (conn ps) ''POST'' (projectPath ps ''/stories'') None s
         = (Inr request, s') \<longrightarrow>
       sent (fst (snd (CreateStory Es ps story (trs, s)))) =
         sent trs @ [(addJSONBodyReader ps request (fst (Es story)), Some Story_zero)]"
    by (simp add: CreateStory_def defs split: splits)
  have u4: "CreateRequest (conn ps) ''PUT'' (projectPath ps (''/stories/'' @ Sprintf_d (ID story)))
         None s = (Inr request, s') \<longrightarrow>
       sent (fst (snd (UpdateStory Es ps story (trs, s)))) =
         sent trs @ [(addJSONBodyReader ps request (fst (Es story)), Some Story_zero)]"
    by (simp add: UpdateStory_def defs split: splits)
  have u5: "CreateRequest (conn pt) ''POST''
         (projectPath pt (''/stories/'' @ Sprintf_d storyId @ ''/tasks'')) None s
         = (Inr request, s') \<longrightarrow>
       sent (fst (snd (CreateTask Et pt storyId task (trt, s)))) =
         sent trt @ [(addJSONBodyReader pt request (fst (Et task)), Some 0)]"
    by (simp add: CreateTask_def defs split: splits)
  have u6: "CreateRequest (conn pc) ''POST''
         (projectPath pc (''/stories/'' @ Sprintf_d storyId @ ''/comments'')) None s
         = (Inr request, s') \<longrightarrow>
       sent (fst (snd (CreateComment Ec pc storyId cmt (trc, s)))) =
         sent trc @ [(addJSONBodyReader pc request (fst (Ec cmt)), Some Comment_zero)]"
    by (simp add: CreateComment_def defs split: splits)
  have u7: "CreateRequest (conn pt) ''POST''
         (projectPath pt (''/stories/'' @ Sprintf_d storyId @ ''/blockers'')) None s
         = (Inr request, s') \<longrightarrow>
       sent (fst (snd (CreateBlocker Eb pt storyId blocker (trt, s)))) =
         sent trt @ [(addJSONBodyReader pt request (fst (Eb blocker)), Some 0)]"
    by (simp add: CreateBlocker_def defs split: splits)
  from b1 b2 b2' b3 b4 g1 g2 g3 g4 g5 g6 g7 u1 u2 u3 u4 u5 u6 u7 show ?thesis
    by (intro conjI)
qed

theorem bodies_and_content_type_witness:
  \<open>Header (addJSONBodyReader (list_stub [] (answering (None, 0, None))) fresh_request ''{}'')
       ''Content-Type'' = Some [''application/json'']
   \<and> Header_Get
       (Header (addJSONBodyReader (list_stub [] (answering (None, 0, None))) fresh_request
                  ''{}'')) ''Content-Type'' = ''application/json''
   \<and> Header_Get
       (Header (addJSONBodyReader (list_stub [] (answering (None, 0, None))) text_request
                  ''{}'')) ''Content-Type'' = ''text/plain''
   \<and> sent (fst (snd (Iterations (list_stub [] (answering (None, 0, None))) no_query ([], 0))))
     = [(fresh_request, Some None)]
   \<and> sent (fst (snd (Stories spec_Query (list_stub [] (answering (None, 0, None))) []
                       ([], 0))))
     = [(fresh_request, Some None)]
   \<and> sent (fst (snd (StoryActivity spec_Query (list_stub [] (answering (None, 0, None))) 42 []
                       ([], 0))))
     = [(fresh_request, Some None)]
   \<and> sent (fst (snd (StoryTasks spec_Query (list_stub [] (answering (None, 0, None))) 42 []
                       ([], 0))))
     = [(fresh_request, Some None)]
   \<and> sent (fst (snd (StoryComments spec_Query (list_stub [] (answering (None, 0, None))) 42 []
                       ([], 0))))
     = [(fresh_request, Some None)]
   \<and> sent (fst (snd (ProjectMemberships (list_stub [] (answering (None, 0, None))) ([], 0))))
     = [(fresh_request, Some None)]
   \<and> sent (fst (snd (DeleteStory (list_stub [] (answering (None, 0, None))) 42 ([], 0))))
     = [(fresh_request, None)]
   \<and> sent (fst (snd (DeliverStory (list_stub [] (answering (None, 0, None))) 42 ([], 0))))
     = [(json_request ''{"current_state":"delivered"}'', None)]
   \<and> sent (fst (snd (DeliverStoryWithComment
                       (encode_stub ''{}'' None :: (nat Comment_scheme, string) encoder)
                       (list_stub [] (answering (None, 0, None))) 42 ''done'' ([], 0))))
     = [(json_request ''{"current_state":"delivered"}'', None), (json_request ''{}'', None)]
   \<and> sent (fst (snd (CreateStory (encode_stub ''{}'' None)
                       (story_stub [] (answering (None, 0, None))) \<lparr>ID = 42, \<dots> = 0\<rparr>
                       ([], 0))))
     = [(json_request ''{}'', Some Story_zero)]
   \<and> sent (fst (snd (UpdateStory (encode_stub ''{}'' None)
                       (story_stub [] (answering (None, 0, None))) \<lparr>ID = 42, \<dots> = 0\<rparr>
                       ([], 0))))
     = [(json_request ''{}'', Some Story_zero)]
   \<and> sent (fst (snd (CreateTask (encode_stub ''{}'' None)
                       (task_stub [] (answering (None, 0, None))) 42 5 ([], 0))))
     = [(json_request ''{}'', Some 0)]
   \<and> sent (fst (snd (CreateComment (encode_stub ''{}'' None)
                       (comment_stub [] (answering (None, 0, None))) 42
                       \<lparr>Text = ''hi'', \<dots> = 0\<rparr> ([], 0))))
     = [(json_request ''{}'', Some Comment_zero)]
   \<and> sent (fst (snd (CreateBlocker (encode_stub ''{}'' None)
                       (task_stub [] (answering (None, 0, None))) 42 5 ([], 0))))
     = [(json_request ''{}'', Some 0)]
   \<and> sent (fst (snd (DeleteStory
                       (stub_returning text_request (answering (None, 0, None))
                          :: (unit, nat list option, nat, string, nat) ProjectClient)
                       42 ([], 0))))
     = [(text_request, None)]
   \<and> sent (fst (snd (DeliverStory
                       (stub_returning text_request (answering (None, 0, None))
                          :: (unit, nat list option, nat, string, nat) ProjectClient)
                       42 ([], 0))))
     = [(text_json_request ''{"current_state":"delivered"}'', None)]
   \<and> sent (fst (snd (CreateStory (encode_stub ''{}'' None)
                       (stub_returning text_request (answering (None, 0, None))
                          :: (unit, nat Story_scheme, nat, string, nat) ProjectClient)
                       \<lparr>ID = 42, \<dots> = 0\<rparr> ([], 0))))
     = [(text_json_request ''{}'', Some Story_zero)]\<close>
proof -
  let ?p = "list_stub [] (answering (None, 0, None))"
  let ?ps = "story_stub [] (answering (None, 0, None))"
  let ?pc = "comment_stub [] (answering (None, 0, None))"
  let ?pt = "task_stub [] (answering (None, 0, None))"
  let ?t = "stub_returning text_request (answering (None, 0, None))
              :: (unit, nat list option, nat, string, nat) ProjectClient"
  let ?ts = "stub_returning text_request (answering (None, 0, None))
               :: (unit, nat Story_scheme, nat, string, nat) ProjectClient"
  let ?Ew = "encode_stub ''{}'' None :: (nat Comment_scheme, string) encoder"
  have creates:
    "\<And>method path params n. CreateRequest (conn ?p) method path params n
        = (Inr fresh_request, n + 1)"
    "\<And>method path params n. CreateRequest (conn ?ps) method path params n
        = (Inr fresh_request, n + 1)"
    "\<And>method path params n. CreateRequest (conn ?pc) method path params n
        = (Inr fresh_request, n + 1)"
    "\<And>method path params n. CreateRequest (conn ?pt) method path params n
        = (Inr fresh_request, n + 1)"
    by (simp_all add: stub_def stub_client_def)
  have creates_text:
    "\<And>method path params n. CreateRequest (conn ?t) method path params n
        = (Inr text_request, n + 1)"
    "\<And>method path params n. CreateRequest (conn ?ts) method path params n
        = (Inr text_request, n + 1)"
    by (simp_all add: stub_returning_def)
  have delivered: \<open>DeliverStory ?p 42 ([], 0) =
      (None,
       ([CreateRequest_call ''PUT'' ''/projects/7/stories/42'' None,
         Do_call (json_request ''{"current_state":"delivered"}'') None], 2))\<close>
    by (simp add: DeliverStory_def run_defs stub_simps)
  have no_content_type: "Header fresh_request ''Content-Type'' = None"
    by simp
  note inst = bodies_and_content_type
      [where s = 0 and s' = 1 and tr = "[]" and trs = "[]" and trc = "[]" and trt = "[]"
         and iq = no_query and Query = spec_Query and q = "[]" and storyId = 42
         and tra = \<open>[CreateRequest_call ''PUT'' ''/projects/7/stories/42'' None,
                    Do_call (json_request ''{"current_state":"delivered"}'') None]\<close>
         and sa = 2 and sb = 3 and Ew = ?Ew and comment = "''done''"
         and Es = "encode_stub ''{}'' None" and story = "\<lparr>ID = 42, \<dots> = 0\<rparr>"
         and Et = "encode_stub ''{}'' None" and task = 5
         and Eb = "encode_stub ''{}'' None" and blocker = 5
         and Ec = "encode_stub ''{}'' None" and cmt = "\<lparr>Text = ''hi'', \<dots> = 0\<rparr>"
         and pc = ?pc and pt = ?pt and body = "''{}''"]
  have fresh: \<open>Header (addJSONBodyReader ?p fresh_request ''{}'') ''Content-Type''
       = Some [''application/json'']
   \<and> Header_Get (Header (addJSONBodyReader ?p fresh_request ''{}'')) ''Content-Type''
       = ''application/json''
   \<and> sent (fst (snd (Iterations ?p no_query ([], 0)))) = [(fresh_request, Some None)]
   \<and> sent (fst (snd (Stories spec_Query ?p [] ([], 0)))) = [(fresh_request, Some None)]
   \<and> sent (fst (snd (StoryActivity spec_Query ?p 42 [] ([], 0))))
       = [(fresh_request, Some None)]
   \<and> sent (fst (snd (StoryTasks spec_Query ?p 42 [] ([], 0)))) = [(fresh_request, Some None)]
   \<and> sent (fst (snd (StoryComments spec_Query ?p 42 [] ([], 0))))
       = [(fresh_request, Some None)]
   \<and> sent (fst (snd (ProjectMemberships ?p ([], 0)))) = [(fresh_request, Some None)]
   \<and> sent (fst (snd (DeleteStory ?p 42 ([], 0)))) = [(fresh_request, None)]
   \<and> sent (fst (snd (DeliverStory ?p 42 ([], 0))))
       = [(json_request ''{"current_state":"delivered"}'', None)]
   \<and> sent (fst (snd (DeliverStoryWithComment ?Ew ?p 42 ''done'' ([], 0))))
       = [(json_request ''{"current_state":"delivered"}'', None), (json_request ''{}'', None)]
   \<and> sent (fst (snd (CreateStory (encode_stub ''{}'' None) ?ps \<lparr>ID = 42, \<dots> = 0\<rparr>
                       ([], 0))))
       = [(json_request ''{}'', Some Story_zero)]
   \<and> sent (fst (snd (UpdateStory (encode_stub ''{}'' None) ?ps \<lparr>ID = 42, \<dots> = 0\<rparr>
                       ([], 0))))
       = [(json_request ''{}'', Some Story_zero)]
   \<and> sent (fst (snd (CreateTask (encode_stub ''{}'' None) ?pt 42 5 ([], 0))))
       = [(json_request ''{}'', Some 0)]
   \<and> sent (fst (snd (CreateComment (encode_stub ''{}'' None) ?pc 42
                       \<lparr>Text = ''hi'', \<dots> = 0\<rparr> ([], 0))))
       = [(json_request ''{}'', Some Comment_zero)]
   \<and> sent (fst (snd (CreateBlocker (encode_stub ''{}'' None) ?pt 42 5 ([], 0))))
       = [(json_request ''{}'', Some 0)]\<close>
    using inst [where p = ?p and ps = ?ps and request = fresh_request]
      creates delivered no_content_type
    by (simp add: encode_stub_def json_request_def addJSONBodyReader_def Header_Add_def)
  have preset: \<open>Header_Get (Header (addJSONBodyReader ?p text_request ''{}'')) ''Content-Type''
       = ''text/plain''
   \<and> sent (fst (snd (DeleteStory ?t 42 ([], 0)))) = [(text_request, None)]
   \<and> sent (fst (snd (DeliverStory ?t 42 ([], 0))))
       = [(text_json_request ''{"current_state":"delivered"}'', None)]
   \<and> sent (fst (snd (CreateStory (encode_stub ''{}'' None) ?ts \<lparr>ID = 42, \<dots> = 0\<rparr>
                       ([], 0))))
       = [(text_json_request ''{}'', Some Story_zero)]\<close>
    using inst [where p = ?t and ps = ?ts and request = text_request]
      inst [where p = ?p and ps = ?ts and request = text_request]
      creates_text
    by (simp add: encode_stub_def text_request_def text_json_request_def
        addJSONBodyReader_def Header_Add_def)
  from fresh preset show ?thesis
    by simp
qed

subsection \<open>Errors of the JSON encoder\<close>

text \<open>
  Claim C9. The operations that send a record (\<^verbatim>\<open>CreateStory\<close>, \<^verbatim>\<open>UpdateStory\<close>,
  \<^verbatim>\<open>CreateTask\<close>, \<^verbatim>\<open>CreateComment\<close>, \<^verbatim>\<open>CreateBlocker\<close>, the comment step of
  \<^verbatim>\<open>DeliverStoryWithComment\<close>) ignore the error that \<^verbatim>\<open>Encode\<close> returns: each behaves
  exactly as with an encoder that writes the same bytes and never fails. In particular,
  when the encoding of the payload fails after writing \<open>bytes\<close> (possibly none) and the
  request can be created, the request is sent with body \<open>bytes\<close>, and the error returned
  to the caller is the one \<^verbatim>\<open>Do\<close> returns (nil for \<^verbatim>\<open>UpdateStory\<close>), not the encoder's.
  Each line below stands for itself.
\<close>

theorem encoding_error_discarded:
  "CreateStory Es ps story ws = CreateStory (without_error Es) ps story ws
   \<and> UpdateStory Es ps story ws = UpdateStory (without_error Es) ps story ws
   \<and> CreateTask Et pt storyId task wt = CreateTask (without_error Et) pt storyId task wt
   \<and> CreateComment Ec pc storyId cmt wc = CreateComment (without_error Ec) pc storyId cmt wc
   \<and> CreateBlocker Eb pt storyId blocker wt =
       CreateBlocker (without_error Eb) pt storyId blocker wt
   \<and> DeliverStoryWithComment Ew p storyId comment w =
       DeliverStoryWithComment (without_error Ew) p storyId comment w
   \<and> (Es story = (bytes, Some encErr)
       \<and> CreateRequest (conn ps) ''POST'' (projectPath ps ''/stories'') None s = (Inr request, s')
       \<and> Do (conn ps) (addJSONBodyReader ps request bytes) (Some Story_zero) s'
           = ((writtens, pagination, err), sb) \<longrightarrow>
       CreateStory Es ps story (trs, s) =
         ((assigned Story_zero writtens, err),
          (trs @ [CreateRequest_call ''POST'' (projectPath ps ''/stories'') None,
                  Do_call (addJSONBodyReader ps request bytes) (Some Story_zero)], sb)))
   \<and> (Es story = (bytes, Some encErr)
       \<and> CreateRequest (conn ps) ''PUT'' (projectPath ps (''/stories/'' @ Sprintf_d (ID story)))
           None s = (Inr request, s')
       \<and> Do (conn ps) (addJSONBodyReader ps request bytes) (Some Story_zero) s'
           = ((writtens, pagination, err), sb) \<longrightarrow>
       UpdateStory Es ps story (trs, s) =
         ((assigned Story_zero writtens, None),
          (trs @ [CreateRequest_call ''PUT''
                    (projectPath ps (''/stories/'' @ Sprintf_d (ID story))) None,
                  Do_call (addJSONBodyReader ps request bytes) (Some Story_zero)], sb)))
   \<and> (Et task = (bytes, Some encErr)
       \<and> CreateRequest (conn pt) ''POST''
           (projectPath pt (''/stories/'' @ Sprintf_d storyId @ ''/tasks'')) None s
           = (Inr request, s')
       \<and> Do (conn pt) (addJSONBodyReader pt request bytes) (Some 0) s'
           = ((writtent, pagination, err), sb) \<longrightarrow>
       CreateTask Et pt storyId task (trt, s) =
         ((assigned 0 writtent, err),
          (trt @ [CreateRequest_call ''POST''
                    (projectPath pt (''/stories/'' @ Sprintf_d storyId @ ''/tasks'')) None,
                  Do_call (addJSONBodyReader pt request bytes) (Some 0)], sb)))
   \<and> (Ec cmt = (bytes, Some encErr)
       \<and> CreateRequest (conn pc) ''POST''
           (projectPath pc (''/stories/'' @ Sprintf_d storyId @ ''/comments'')) None s
           = (Inr request, s')
       \<and> Do (conn pc) (addJSONBodyReader pc request bytes) (Some Comment_zero) s'
           = ((writtenc, pagination, err), sb) \<longrightarrow>
       CreateComment Ec pc storyId cmt (trc, s) =
         ((assigned Comment_zero writtenc, err),
          (trc @ [CreateRequest_call ''POST''
                    (projectPath pc (''/stories/'' @ Sprintf_d storyId @ ''/comments'')) None,
                  Do_call (addJSONBodyReader pc request bytes) (Some Comment_zero)], sb)))
   \<and> (Eb blocker = (bytes, Some encErr)
       \<and> CreateRequest (conn pt) ''POST''
           (projectPath pt (''/stories/'' @ Sprintf_d storyId @ ''/blockers'')) None s
           = (Inr request, s')
       \<and> Do (conn pt) (addJSONBodyReader pt request bytes) (Some 0) s'
           = ((writtent, pagination, err), sb) \<longrightarrow>
       CreateBlocker Eb pt storyId blocker (trt, s) =
         ((assigned 0 writtent, err),
          (trt @ [CreateRequest_call ''POST''
                    (projectPath pt (''/stories/'' @ Sprintf_d storyId @ ''/blockers'')) None,
                  Do_call (addJSONBodyReader pt request bytes) (Some 0)], sb)))
   \<and> (Ew \<lparr>Text = comment, \<dots> = 0\<rparr> = (bytes, Some encErr)
       \<and> DeliverStory p storyId (tr, s) = (None, (tra, sa))
       \<and> CreateRequest (conn p) ''POST''
           (projectPath p (''/stories/'' @ Sprintf_d storyId @ ''/comments'')) None sa
           = (Inr request, sc)
       \<and> Do (conn p) (addJSONBodyReader p request bytes) None sc
           = ((written, pagination, err), sd) \<longrightarrow>
       DeliverStoryWithComment Ew p storyId comment (tr, s) =
         (err,
          (tra @ [CreateRequest_call ''POST''
                    (projectPath p (''/stories/'' @ Sprintf_d storyId @ ''/comments'')) None,
                  Do_call (addJSONBodyReader p request bytes) None], sd)))"
proof -
  have i1: "CreateStory Es ps story ws = CreateStory (without_error Es) ps story ws"
    by (simp add: CreateStory_def Let_def without_error_def split: prod.splits sum.splits)
  have i2: "UpdateStory Es ps story ws = UpdateStory (without_error Es) ps story ws"
    by (simp add: UpdateStory_def Let_def without_error_def split: prod.splits sum.splits)
  have i3: "CreateTask Et pt storyId task wt = CreateTask (without_error Et) pt storyId task wt"
    by (simp add: CreateTask_def Let_def without_error_def split: prod.splits sum.splits)
  have i4: "CreateComment Ec pc storyId cmt wc
              = CreateComment (without_error Ec) pc storyId cmt wc"
    by (simp add: CreateComment_def Let_def without_error_def split: prod.splits sum.splits)
  have i5: "CreateBlocker Eb pt storyId blocker wt =
       CreateBlocker (without_error Eb) pt storyId blocker wt"
    by (simp add: CreateBlocker_def Let_def without_error_def split: prod.splits sum.splits)
  have i6: "DeliverStoryWithComment Ew p storyId comment w =
       DeliverStoryWithComment (without_error Ew) p storyId comment w"
    by (simp add: DeliverStoryWithComment_def Let_def without_error_def
        split: prod.splits sum.splits option.splits)
  have f1: "Es story = (bytes, Some encErr)
       \<and> CreateRequest (conn ps) ''POST'' (projectPath ps ''/stories'') None s = (Inr request, s')
       \<and> Do (conn ps) (addJSONBodyReader ps request bytes) (Some Story_zero) s'
           = ((writtens, pagination, err), sb) \<longrightarrow>
       CreateStory Es ps story (trs, s) =
         ((assigned Story_zero writtens, err),
          (trs @ [CreateRequest_call ''POST'' (projectPath ps ''/stories'') None,
                  Do_call (addJSONBodyReader ps request bytes) (Some Story_zero)], sb))"
    using CreateStory_created [of ps s request s' Es story writtens pagination err sb trs]
    by simp
  have f2: "Es story = (bytes, Some encErr)
       \<and> CreateRequest (conn ps) ''PUT'' (projectPath ps (''/stories/'' @ Sprintf_d (ID story)))
           None s = (Inr request, s')
       \<and> Do (conn ps) (addJSONBodyReader ps request bytes) (Some Story_zero) s'
           = ((writtens, pagination, err), sb) \<longrightarrow>
       UpdateStory Es ps story (trs, s) =
         ((assigned Story_zero writtens, None),
          (trs @ [CreateRequest_call ''PUT''
                    (projectPath ps (''/stories/'' @ Sprintf_d (ID story))) None,
                  Do_call (addJSONBodyReader ps request bytes) (Some Story_zero)], sb))"
    using UpdateStory_created [of ps story s request s' Es writtens pagination err sb trs]
    by simp
  have f3: "Et task = (bytes, Some encErr)
       \<and> CreateRequest (conn pt) ''POST''
           (projectPath pt (''/stories/'' @ Sprintf_d storyId @ ''/tasks'')) None s
           = (Inr request, s')
       \<and> Do (conn pt) (addJSONBodyReader pt request bytes) (Some 0) s'
           = ((writtent, pagination, err), sb) \<longrightarrow>
       CreateTask Et pt storyId task (trt, s) =
         ((assigned 0 writtent, err),
          (trt @ [CreateRequest_call ''POST''
                    (projectPath pt (''/stories/'' @ Sprintf_d storyId @ ''/tasks'')) None,
                  Do_call (addJSONBodyReader pt request bytes) (Some 0)], sb))"
    using CreateTask_created [of pt storyId s request s' Et task writtent pagination err sb trt]
    by simp
  have f4: "Ec cmt = (bytes, Some encErr)
       \<and> CreateRequest (conn pc) ''POST''
           (projectPath pc (''/stories/'' @ Sprintf_d storyId @ ''/comments'')) None s
           = (Inr request, s')
       \<and> Do (conn pc) (addJSONBodyReader pc request bytes) (Some Comment_zero) s'
           = ((writtenc, pagination, err), sb) \<longrightarrow>
       CreateComment Ec pc storyId cmt (trc, s) =
         ((assigned Comment_zero writtenc, err),
          (trc @ [CreateRequest_call ''POST''
                    (projectPath pc (''/stories/'' @ Sprintf_d storyId @ ''/comments'')) None,
                  Do_call (addJSONBodyReader pc request bytes) (Some Comment_zero)], sb))"
    using CreateComment_created
      [of pc storyId s request s' Ec cmt writtenc pagination err sb trc]
    by simp
  have f5: "Eb blocker = (bytes, Some encErr)
       \<and> CreateRequest (conn pt) ''POST''
           (projectPath pt (''/stories/'' @ Sprintf_d storyId @ ''/blockers'')) None s
           = (Inr request, s')
       \<and> Do (conn pt) (addJSONBodyReader pt request bytes) (Some 0) s'
           = ((writtent, pagination, err), sb) \<longrightarrow>
       CreateBlocker Eb pt storyId blocker (trt, s) =
         ((assigned 0 writtent, err),
          (trt @ [CreateRequest_call ''POST''
                    (projectPath pt (''/stories/'' @ Sprintf_d storyId @ ''/blockers'')) None,
                  Do_call (addJSONBodyReader pt request bytes) (Some 0)], sb))"
    using CreateBlocker_created
      [of pt storyId s request s' Eb blocker writtent pagination err sb trt]
    by simp
  have f6: "Ew \<lparr>Text = comment, \<dots> = 0\<rparr> = (bytes, Some encErr)
       \<and> DeliverStory p storyId (tr, s) = (None, (tra, sa))
       \<and> CreateRequest (conn p) ''POST''
           (projectPath p (''/stories/'' @ Sprintf_d storyId @ ''/comments'')) None sa
           = (Inr request, sc)
       \<and> Do (conn p) (addJSONBodyReader p request bytes) None sc
           = ((written, pagination, err), sd) \<longrightarrow>
       DeliverStoryWithComment Ew p storyId comment (tr, s) =
         (err,
          (tra @ [CreateRequest_call ''POST''
                    (projectPath p (''/stories/'' @ Sprintf_d storyId @ ''/comments'')) None,
                  Do_call (addJSONBodyReader p request bytes) None], sd))"
    using DeliverStoryWithComment_created
      [of p storyId "(tr, s)" tra sa request sc Ew comment written pagination err sd]
    by simp
  from i1 i2 i3 i4 i5 i6 f1 f2 f3 f4 f5 f6 show ?thesis
    by (intro conjI)
qed

theorem encoding_error_discarded_witness:
  \<open>CreateStory (encode_stub ''{'' (Some ''json: unsupported value''))
     (story_stub [] (answering (Some \<lparr>ID = 99, \<dots> = 0\<rparr>, 0, None)))
     \<lparr>ID = 0, \<dots> = 0\<rparr> ([], 0)
   = ((\<lparr>ID = 99, \<dots> = 0\<rparr>, None),
      ([CreateRequest_call ''POST'' ''/projects/7/stories'' None,
        Do_call (json_request ''{'') (Some Story_zero)], 2))
   \<and> UpdateStory (encode_stub ''{'' (Some ''json: unsupported value''))
     (story_stub [] (answering (Some \<lparr>ID = 99, \<dots> = 0\<rparr>, 0, None)))
     \<lparr>ID = 42, \<dots> = 0\<rparr> ([], 0)
   = ((\<lparr>ID = 99, \<dots> = 0\<rparr>, None),
      ([CreateRequest_call ''PUT'' ''/projects/7/stories/42'' None,
        Do_call (json_request ''{'') (Some Story_zero)], 2))
   \<and> CreateTask (encode_stub [] (Some ''json: unsupported value''))
     (task_stub [] (answering (Some 3, 0, None))) 42 5 ([], 0)
   = ((3, None),
      ([CreateRequest_call ''POST'' ''/projects/7/stories/42/tasks'' None,
        Do_call (json_request []) (Some 0)], 2))
   \<and> CreateComment (encode_stub [] (Some ''json: unsupported value''))
     (comment_stub [] (answering (None, 0, Some ''bad request''))) 42
     \<lparr>Text = ''hi'', \<dots> = 0\<rparr> ([], 0)
   = ((Comment_zero, Some ''bad request''),
      ([CreateRequest_call ''POST'' ''/projects/7/stories/42/comments'' None,
        Do_call (json_request []) (Some Comment_zero)], 2))
   \<and> CreateBlocker (encode_stub [] (Some ''json: unsupported value''))
     (task_stub [] (answering (Some 3, 0, None))) 42 5 ([], 0)
   = ((3, None),
      ([CreateRequest_call ''POST'' ''/projects/7/stories/42/blockers'' None,
        Do_call (json_request []) (Some 0)], 2))
   \<and> DeliverStoryWithComment
       (encode_stub [] (Some ''json: unsupported value'') :: (nat Comment_scheme, string) encoder)
       (list_stub [] (answering (None, 0, None))) 42 ''done'' ([], 0)
   = (None,
      ([CreateRequest_call ''PUT'' ''/projects/7/stories/42'' None,
        Do_call (json_request ''{"current_state":"delivered"}'') None,
        CreateRequest_call ''POST'' ''/projects/7/stories/42/comments'' None,
        Do_call (json_request []) None], 4))\<close>
proof -
  let ?p = "list_stub [] (answering (None, 0, None))"
  let ?ps = "story_stub [] (answering (Some \<lparr>ID = 99, \<dots> = 0\<rparr>, 0, None))"
  let ?pc = "comment_stub [] (answering (None, 0, Some ''bad request''))"
  let ?pt = "task_stub [] (answering (Some 3, 0, None))"
  let ?Ew = "encode_stub [] (Some ''json: unsupported value'')
               :: (nat Comment_scheme, string) encoder"
  have delivered: \<open>DeliverStory ?p 42 ([], 0) =
      (None,
       ([CreateRequest_call ''PUT'' ''/projects/7/stories/42'' None,
         Do_call (json_request ''{"current_state":"delivered"}'') None], 2))\<close>
    by (simp add: DeliverStory_def run_defs stub_simps)
  have transport:
    "\<And>method path params n. CreateRequest (conn ?p) method path params n
        = (Inr fresh_request, n + 1)"
    "\<And>method path params n. CreateRequest (conn ?ps) method path params n
        = (Inr fresh_request, n + 1)"
    "\<And>method path params n. CreateRequest (conn ?pc) method path params n
        = (Inr fresh_request, n + 1)"
    "\<And>method path params n. CreateRequest (conn ?pt) method path params n
        = (Inr fresh_request, n + 1)"
    "\<And>request dest n. Do (conn ?p) request dest n = ((None, 0, None), n + 1)"
    "\<And>request dest n. Do (conn ?ps) request dest n
        = ((Some \<lparr>ID = 99, \<dots> = 0\<rparr>, 0, None), n + 1)"
    "\<And>request dest n. Do (conn ?pc) request dest n
        = ((None, 0, Some ''bad request''), n + 1)"
    "\<And>request dest n. Do (conn ?pt) request dest n = ((Some 3, 0, None), n + 1)"
    "id' ?p = 7" "id' ?ps = 7" "id' ?pc = 7" "id' ?pt = 7"
    by (simp_all add: stub_def stub_client_def scripted_def)
  note concrete = encode_stub_def json_request_def addJSONBodyReader_def Header_Add_def
    assigned_def Story_zero_def Comment_zero_def Sprintf_d_7 Sprintf_d_42
  note inst = encoding_error_discarded
      [where p = ?p and ps = ?ps and pc = ?pc and pt = ?pt and s = 0 and s' = 1 and sb = 2
         and request = fresh_request and tr = "[]" and trs = "[]" and trc = "[]" and trt = "[]"
         and storyId = 42 and encErr = "''json: unsupported value''"
         and tra = \<open>[CreateRequest_call ''PUT'' ''/projects/7/stories/42'' None,
                    Do_call (json_request ''{"current_state":"delivered"}'') None]\<close>
         and sa = 2 and sc = 3 and sd = 4 and Ew = ?Ew and comment = "''done''"
         and Et = "encode_stub [] (Some ''json: unsupported value'')" and task = 5
         and Eb = "encode_stub [] (Some ''json: unsupported value'')" and blocker = 5
         and Ec = "encode_stub [] (Some ''json: unsupported value'')"
         and cmt = "\<lparr>Text = ''hi'', \<dots> = 0\<rparr>"
         and pagination = 0 and written = None and writtent = "Some 3" and writtenc = None
         and writtens = "Some \<lparr>ID = 99, \<dots> = 0\<rparr>"]
  have rest: "\<And>a b c d e f g. a \<and> b \<and> c \<and> d \<and> e \<and> f \<and> g \<Longrightarrow> g"
    by simp
  have tasks: \<open>CreateTask (encode_stub [] (Some ''json: unsupported value'')) ?pt 42 5 ([], 0)
     = ((3, None),
        ([CreateRequest_call ''POST'' ''/projects/7/stories/42/tasks'' None,
          Do_call (json_request []) (Some 0)], 2))
   \<and> CreateBlocker (encode_stub [] (Some ''json: unsupported value'')) ?pt 42 5 ([], 0)
     = ((3, None),
        ([CreateRequest_call ''POST'' ''/projects/7/stories/42/blockers'' None,
          Do_call (json_request []) (Some 0)], 2))
   \<and> CreateComment (encode_stub [] (Some ''json: unsupported value'')) ?pc 42
        \<lparr>Text = ''hi'', \<dots> = 0\<rparr> ([], 0)
     = ((Comment_zero, Some ''bad request''),
        ([CreateRequest_call ''POST'' ''/projects/7/stories/42/comments'' None,
          Do_call (json_request []) (Some Comment_zero)], 2))
   \<and> DeliverStoryWithComment ?Ew ?p 42 ''done'' ([], 0)
     = (None,
      ([CreateRequest_call ''PUT'' ''/projects/7/stories/42'' None,
        Do_call (json_request ''{"current_state":"delivered"}'') None,
        CreateRequest_call ''POST'' ''/projects/7/stories/42/comments'' None,
        Do_call (json_request []) None], 4))\<close>
    using inst [where bytes = "[]" and err = None and story = "\<lparr>ID = 0, \<dots> = 0\<rparr>"
                  and Es = "encode_stub [] (Some ''json: unsupported value'')", THEN rest]
      inst [where bytes = "[]" and err = "Some ''bad request''"
                  and story = "\<lparr>ID = 0, \<dots> = 0\<rparr>"
                  and Es = "encode_stub [] (Some ''json: unsupported value'')", THEN rest]
      delivered transport
    by (simp add: concrete)
  have story: "CreateStory (encode_stub ''{'' (Some ''json: unsupported value'')) ?ps
       \<lparr>ID = 0, \<dots> = 0\<rparr> ([], 0)
     = ((\<lparr>ID = 99, \<dots> = 0\<rparr>, None),
        ([CreateRequest_call ''POST'' ''/projects/7/stories'' None,
          Do_call (json_request ''{'') (Some Story_zero)], 2))"
    using inst [where bytes = "''{''" and err = None and story = "\<lparr>ID = 0, \<dots> = 0\<rparr>"
                  and Es = "encode_stub ''{'' (Some ''json: unsupported value'')", THEN rest]
      transport
    by (simp add: concrete)
  have update: "UpdateStory (encode_stub ''{'' (Some ''json: unsupported value'')) ?ps
       \<lparr>ID = 42, \<dots> = 0\<rparr> ([], 0)
     = ((\<lparr>ID = 99, \<dots> = 0\<rparr>, None),
        ([CreateRequest_call ''PUT'' ''/projects/7/stories/42'' None,
          Do_call (json_request ''{'') (Some Story_zero)], 2))"
    using inst [where bytes = "''{''" and err = None and story = "\<lparr>ID = 42, \<dots> = 0\<rparr>"
                  and Es = "encode_stub ''{'' (Some ''json: unsupported value'')", THEN rest]
      transport
    by (simp add: concrete)
  from tasks story update show ?thesis
    by simp
qed

subsection \<open>Errors of \<^verbatim>\<open>CreateRequest\<close>\<close>

text \<open>
  Claim C8 says that, for every operation, an error of \<^verbatim>\<open>CreateRequest\<close> is surfaced at
  once, that \<^verbatim>\<open>Do\<close> is never invoked for that operation, and that the payload results are
  zero values. \<^verbatim>\<open>DeliverStoryWithComment\<close> creates its second request after the delivery
  has been sent: on the stub transport that refuses to create POST requests, the
  \<^verbatim>\<open>CreateRequest\<close> of the comment fails, the composite returns that error, and
  \<^verbatim>\<open>Do\<close> has been invoked once, for the delivery.
\<close>

theorem DeliverStoryWithComment_Do_before_failed_create:
  \<open>CreateRequest (conn (list_stub [''POST''] (answering (None, 0, None))))
      ''POST'' ''/projects/7/stories/42/comments'' None 2
     = (Inl ''cannot create request'', 3)
   \<and> DeliverStoryWithComment (encode_stub ''{}'' None :: (nat Comment_scheme, string) encoder)
       (list_stub [''POST''] (answering (None, 0, None))) 42 ''done'' ([], 0)
     = (Some ''cannot create request'',
        ([CreateRequest_call ''PUT'' ''/projects/7/stories/42'' None,
          Do_call (json_request ''{"current_state":"delivered"}'') None,
          CreateRequest_call ''POST'' ''/projects/7/stories/42/comments'' None], 3))
   \<and> sent (fst (snd (DeliverStoryWithComment
                       (encode_stub ''{}'' None :: (nat Comment_scheme, string) encoder)
                       (list_stub [''POST''] (answering (None, 0, None))) 42 ''done'' ([], 0))))
     = [(json_request ''{"current_state":"delivered"}'', None)]\<close>
  by (simp add: DeliverStoryWithComment_def DeliverStory_def run_defs stub_simps)

text \<open>
  Claim C8, amended. For every operation, when a \<^verbatim>\<open>CreateRequest\<close> call returns an error
  the operation returns that error with zero-valued payload results (nil slice, the empty
  slice for \<^verbatim>\<open>ProjectMemberships\<close>, zero pagination, zero record), and the failed
  \<^verbatim>\<open>CreateRequest\<close> is the last call it makes. For the thirteen operations that create one
  request it is also the only call, so \<^verbatim>\<open>Do\<close> is not invoked; the same holds for
  \<^verbatim>\<open>DeliverStoryWithComment\<close> when its first request cannot be created. When its second
  request (the comment) cannot be created, the delivery has succeeded before, with one
  \<^verbatim>\<open>Do\<close> call. Each line below stands for itself.
\<close>

theorem create_failure_returned:
  "(CreateRequest (conn p) ''GET'' (projectPath p ''/iterations'') (IterationsQuery_Query iq) s
       = (Inl err, s') \<longrightarrow>
     Iterations p iq (tr, s) =
       ((None, 0, Some err),
        (tr @ [CreateRequest_call ''GET'' (projectPath p ''/iterations'')
                 (IterationsQuery_Query iq)], s')))
   \<and> (CreateRequest (conn p) ''GET'' (projectPath p ''/stories'') (Query q) s
       = (Inl err, s') \<longrightarrow>
     Stories Query p q (tr, s) =
       ((None, 0, Some err),
        (tr @ [CreateRequest_call ''GET'' (projectPath p ''/stories'') (Query q)], s')))
   \<and> (CreateRequest (conn p) ''GET''
        (projectPath p (''/stories/'' @ Sprintf_d storyId @ ''/activity'')) (Query q) s
       = (Inl err, s') \<longrightarrow>
     StoryActivity Query p storyId q (tr, s) =
       ((None, Some err),
        (tr @ [CreateRequest_call ''GET''
                 (projectPath p (''/stories/'' @ Sprintf_d storyId @ ''/activity''))
                 (Query q)], s')))
   \<and> (CreateRequest (conn p) ''GET''
        (projectPath p (''/stories/'' @ Sprintf_d storyId @ ''/tasks'')) (Query q) s
       = (Inl err, s') \<longrightarrow>
     StoryTasks Query p storyId q (tr, s) =
       ((None, Some err),
        (tr @ [CreateRequest_call ''GET''
                 (projectPath p (''/stories/'' @ Sprintf_d storyId @ ''/tasks''))
                 (Query q)], s')))
   \<and> (CreateRequest (conn p) ''GET''
        (projectPath p (''/stories/'' @ Sprintf_d storyId @ ''/comments'')) (Query q) s
       = (Inl err, s') \<longrightarrow>
     StoryComments Query p storyId q (tr, s) =
       ((None, Some err),
        (tr @ [CreateRequest_call ''GET''
                 (projectPath p (''/stories/'' @ Sprintf_d storyId @ ''/comments''))
                 (Query q)], s')))
   \<and> (CreateRequest (conn p) ''GET'' (projectPath p ''/memberships'') None s
       = (Inl err, s') \<longrightarrow>
     ProjectMemberships p (tr, s) =
       ((Some [], Some err),
        (tr @ [CreateRequest_call ''GET'' (projectPath p ''/memberships'') None], s')))
   \<and> (CreateRequest (conn p) ''DELETE'' (projectPath p (''/stories/'' @ Sprintf_d storyId))
        None s = (Inl err, s') \<longrightarrow>
     DeleteStory p storyId (tr, s) =
       (Some err,
        (tr @ [CreateRequest_call ''DELETE''
                 (projectPath p (''/stories/'' @ Sprintf_d storyId)) None], s')))
   \<and> (CreateRequest (conn p) ''PUT'' (projectPath p (''/stories/'' @ Sprintf_d storyId))
        None s = (Inl err, s') \<longrightarrow>
     DeliverStory p storyId (tr, s) =
       (Some err,
        (tr @ [CreateRequest_call ''PUT''
                 (projectPath p (''/stories/'' @ Sprintf_d storyId)) None], s')))
   \<and> (CreateRequest (conn p) ''PUT'' (projectPath p (''/stories/'' @ Sprintf_d storyId))
        None s = (Inl err, s') \<longrightarrow>
     DeliverStoryWithComment Ew p storyId comment (tr, s) =
       (Some err,
        (tr @ [CreateRequest_call ''PUT''
                 (projectPath p (''/stories/'' @ Sprintf_d storyId)) None], s')))
   \<and> (DeliverStory p storyId (tr, s) = (None, (tra, sa))
       \<and> CreateRequest (conn p) ''POST''
           (projectPath p (''/stories/'' @ Sprintf_d storyId @ ''/comments'')) None sa
           = (Inl err, sb) \<longrightarrow>
     DeliverStoryWithComment Ew p storyId comment (tr, s) =
       (Some err,
        (tra @ [CreateRequest_call ''POST''
                  (projectPath p (''/stories/'' @ Sprintf_d storyId @ ''/comments'')) None],
         sb))
     \<and> length (sent tra) = length (sent tr) + 1)
   \<and> (CreateRequest (conn ps) ''POST'' (projectPath ps ''/stories'') None s = (Inl err, s')
       \<longrightarrow>
     CreateStory Es ps story (trs, s) =
       ((Story_zero, Some err),
        (trs @ [CreateRequest_call ''POST'' (projectPath ps ''/stories'') None], s')))
   \<and> (CreateRequest (conn ps) ''PUT'' (projectPath ps (''/stories/'' @ Sprintf_d (ID story)))
        None s = (Inl err, s') \<longrightarrow>
     UpdateStory Es ps story (trs, s) =
       ((Story_zero, Some err),
        (trs @ [CreateRequest_call ''PUT''
                  (projectPath ps (''/stories/'' @ Sprintf_d (ID story))) None], s')))
   \<and> (CreateRequest (conn pt) ''POST''
        (projectPath pt (''/stories/'' @ Sprintf_d storyId @ ''/tasks'')) None s
       = (Inl err, s') \<longrightarrow>
     CreateTask Et pt storyId task (trt, s) =
       ((0, Some err),
        (trt @ [CreateRequest_call ''POST''
                  (projectPath pt (''/stories/'' @ Sprintf_d storyId @ ''/tasks'')) None], s')))
   \<and> (CreateRequest (conn pc) ''POST''
        (projectPath pc (''/stories/'' @ Sprintf_d storyId @ ''/comments'')) None s
       = (Inl err, s') \<longrightarrow>
     CreateComment Ec pc storyId cmt (trc, s) =
       ((Comment_zero, Some err),
        (trc @ [CreateRequest_call ''POST''
                  (projectPath pc (''/stories/'' @ Sprintf_d storyId @ ''/comments'')) None],
         s')))
   \<and> (CreateRequest (conn pt) ''POST''
        (projectPath pt (''/stories/'' @ Sprintf_d storyId @ ''/blockers'')) None s
       = (Inl err, s') \<longrightarrow>
     CreateBlocker Eb pt storyId blocker (trt, s) =
       ((0, Some err),
        (trt @ [CreateRequest_call ''POST''
                  (projectPath pt (''/stories/'' @ Sprintf_d storyId @ ''/blockers'')) None],
         s')))"
proof -
  have delivered: "DeliverStory p storyId (tr, s) = (None, (tra, sa)) \<longrightarrow>
      length (sent tra) = length (sent tr) + 1"
    by (auto simp: DeliverStory_def createRequest_run call_Do_def Let_def sent_append
        split: prod.splits sum.splits)
  have composite_first:
    "CreateRequest (conn p) ''PUT'' (projectPath p (''/stories/'' @ Sprintf_d storyId))
        None s = (Inl err, s') \<longrightarrow>
     DeliverStoryWithComment Ew p storyId comment (tr, s) =
       (Some err,
        (tr @ [CreateRequest_call ''PUT''
                 (projectPath p (''/stories/'' @ Sprintf_d storyId)) None], s'))"
    using DeliverStory_create_failed [of p storyId s err s' tr]
      DeliverStoryWithComment_delivery_failed [of p storyId "(tr, s)" err _ Ew comment]
    by simp
  show ?thesis
    using delivered composite_first
      Iterations_create_failed [of p iq s err s' tr]
      Stories_create_failed [of p Query q s err s' tr]
      StoryActivity_create_failed [of p storyId Query q s err s' tr]
      StoryTasks_create_failed [of p storyId Query q s err s' tr]
      StoryComments_create_failed [of p storyId Query q s err s' tr]
      ProjectMemberships_create_failed [of p s err s' tr]
      DeleteStory_create_failed [of p storyId s err s' tr]
      DeliverStory_create_failed [of p storyId s err s' tr]
      DeliverStoryWithComment_create_failed [of p storyId "(tr, s)" tra sa err sb Ew comment]
      CreateStory_create_failed [of ps s err s' Es story trs]
      UpdateStory_create_failed [of ps story s err s' Es trs]
      CreateTask_create_failed [of pt storyId s err s' Et task trt]
      CreateComment_create_failed [of pc storyId s err s' Ec cmt trc]
      CreateBlocker_create_failed [of pt storyId s err s' Eb blocker trt]
    by (intro conjI impI) simp_all
qed

theorem create_failure_returned_witness:
  \<open>Iterations (list_stub [''GET''] (answering (None, 0, None))) no_query ([], 0)
     = ((None, 0, Some ''cannot create request''),
        ([CreateRequest_call ''GET'' ''/projects/7/iterations'' (Some Map.empty)], 1))
   \<and> Stories spec_Query (list_stub [''GET''] (answering (None, 0, None))) [] ([], 0)
     = ((None, 0, Some ''cannot create request''),
        ([CreateRequest_call ''GET'' ''/projects/7/stories'' (Some Map.empty)], 1))
   \<and> StoryActivity spec_Query (list_stub [''GET''] (answering (None, 0, None))) 42 [] ([], 0)
     = ((None, Some ''cannot create request''),
        ([CreateRequest_call ''GET'' ''/projects/7/stories/42/activity'' (Some Map.empty)], 1))
   \<and> StoryTasks spec_Query (list_stub [''GET''] (answering (None, 0, None))) 42 [] ([], 0)
     = ((None, Some ''cannot create request''),
        ([CreateRequest_call ''GET'' ''/projects/7/stories/42/tasks'' (Some Map.empty)], 1))
   \<and> StoryComments spec_Query (list_stub [''GET''] (answering (None, 0, None))) 42 [] ([], 0)
     = ((None, Some ''cannot create request''),
        ([CreateRequest_call ''GET'' ''/projects/7/stories/42/comments'' (Some Map.empty)], 1))
   \<and> ProjectMemberships (list_stub [''GET''] (answering (None, 0, None))) ([], 0)
     = ((Some [], Some ''cannot create request''),
        ([CreateRequest_call ''GET'' ''/projects/7/memberships'' None], 1))
   \<and> DeleteStory (list_stub [''DELETE''] (answering (None, 0, None))) 42 ([], 0)
     = (Some ''cannot create request'',
        ([CreateRequest_call ''DELETE'' ''/projects/7/stories/42'' None], 1))
   \<and> DeliverStory (list_stub [''PUT''] (answering (None, 0, None))) 42 ([], 0)
     = (Some ''cannot create request'',
        ([CreateRequest_call ''PUT'' ''/projects/7/stories/42'' None], 1))
   \<and> DeliverStoryWithComment (encode_stub ''{}'' None :: (nat Comment_scheme, string) encoder)
       (list_stub [''PUT''] (answering (None, 0, None))) 42 ''done'' ([], 0)
     = (Some ''cannot create request'',
        ([CreateRequest_call ''PUT'' ''/projects/7/stories/42'' None], 1))
   \<and> DeliverStoryWithComment (encode_stub ''{}'' None :: (nat Comment_scheme, string) encoder)
       (list_stub [''POST''] (answering (None, 0, None))) 42 ''done'' ([], 0)
     = (Some ''cannot create request'',
        ([CreateRequest_call ''PUT'' ''/projects/7/stories/42'' None,
          Do_call (json_request ''{"current_state":"delivered"}'') None,
          CreateRequest_call ''POST'' ''/projects/7/stories/42/comments'' None], 3))
   \<and> CreateStory (encode_stub ''{}'' None) (story_stub [''POST''] (answering (None, 0, None)))
       \<lparr>ID = 42, \<dots> = 0\<rparr> ([], 0)
     = ((Story_zero, Some ''cannot create request''),
        ([CreateRequest_call ''POST'' ''/projects/7/stories'' None], 1))
   \<and> UpdateStory (encode_stub ''{}'' None) (story_stub [''PUT''] (answering (None, 0, None)))
       \<lparr>ID = 42, \<dots> = 0\<rparr> ([], 0)
     = ((Story_zero, Some ''cannot create request''),
        ([CreateRequest_call ''PUT'' ''/projects/7/stories/42'' None], 1))
   \<and> CreateTask (encode_stub ''{}'' None) (task_stub [''POST''] (answering (None, 0, None)))
       42 5 ([], 0)
     = ((0, Some ''cannot create request''),
        ([CreateRequest_call ''POST'' ''/projects/7/stories/42/tasks'' None], 1))
   \<and> CreateComment (encode_stub ''{}'' None)
       (comment_stub [''POST''] (answering (None, 0, None))) 42 \<lparr>Text = ''hi'', \<dots> = 0\<rparr>
       ([], 0)
     = ((Comment_zero, Some ''cannot create request''),
        ([CreateRequest_call ''POST'' ''/projects/7/stories/42/comments'' None], 1))
   \<and> CreateBlocker (encode_stub ''{}'' None) (task_stub [''POST''] (answering (None, 0, None)))
       42 5 ([], 0)
     = ((0, Some ''cannot create request''),
        ([CreateRequest_call ''POST'' ''/projects/7/stories/42/blockers'' None], 1))\<close>
proof -
  let ?Ew = "encode_stub ''{}'' None :: (nat Comment_scheme, string) encoder"
  let ?all = "(None, 0, None)"
  have refuses:
    "\<And>method refused path params n.
       method \<in> set refused \<Longrightarrow>
       CreateRequest (conn (list_stub refused (answering ?all))) method path params n
         = (Inl ''cannot create request'', n + 1)"
    "\<And>method refused path params n.
       method \<in> set refused \<Longrightarrow>
       CreateRequest (conn (story_stub refused (answering ?all))) method path params n
         = (Inl ''cannot create request'', n + 1)"
    "\<And>method refused path params n.
       method \<in> set refused \<Longrightarrow>
       CreateRequest (conn (comment_stub refused (answering ?all))) method path params n
         = (Inl ''cannot create request'', n + 1)"
    "\<And>method refused path params n.
       method \<in> set refused \<Longrightarrow>
       CreateRequest (conn (task_stub refused (answering ?all))) method path params n
         = (Inl ''cannot create request'', n + 1)"
    by (simp_all add: stub_def stub_client_def)
  have ids:
    "\<And>refused. id' (list_stub refused (answering ?all)) = 7"
    "\<And>refused. id' (story_stub refused (answering ?all)) = 7"
    "\<And>refused. id' (comment_stub refused (answering ?all)) = 7"
    "\<And>refused. id' (task_stub refused (answering ?all)) = 7"
    by (simp_all add: stub_client_def)
  have delivered: \<open>DeliverStory (list_stub [''POST''] (answering ?all)) 42 ([], 0) =
      (None,
       ([CreateRequest_call ''PUT'' ''/projects/7/stories/42'' None,
         Do_call (json_request ''{"current_state":"delivered"}'') None], 2))\<close>
    by (simp add: DeliverStory_def run_defs stub_simps)
  have no_params: "IterationsQuery_Query no_query = Some Map.empty"
    "spec_Query [] = Some Map.empty"
    by (simp_all add: IterationsQuery_Query_def spec_Query_def)
  note inst = create_failure_returned
      [where s = 0 and s' = 1 and err = "''cannot create request''"
         and tr = "[]" and trs = "[]" and trc = "[]" and trt = "[]"
         and iq = no_query and Query = spec_Query and q = "[]" and storyId = 42
         and Ew = ?Ew and comment = "''done''"
         and Es = "encode_stub ''{}'' None" and story = "\<lparr>ID = 42, \<dots> = 0\<rparr>"
         and Et = "encode_stub ''{}'' None" and task = 5
         and Eb = "encode_stub ''{}'' None" and blocker = 5
         and Ec = "encode_stub ''{}'' None" and cmt = "\<lparr>Text = ''hi'', \<dots> = 0\<rparr>"
         and tra = \<open>[CreateRequest_call ''PUT'' ''/projects/7/stories/42'' None,
                    Do_call (json_request ''{"current_state":"delivered"}'') None]\<close>
         and sa = 2 and sb = 3]
  note concrete = Sprintf_d_7 Sprintf_d_42
  have gets: "Iterations (list_stub [''GET''] (answering ?all)) no_query ([], 0)
     = ((None, 0, Some ''cannot create request''),
        ([CreateRequest_call ''GET'' ''/projects/7/iterations'' (Some Map.empty)], 1))
   \<and> Stories spec_Query (list_stub [''GET''] (answering ?all)) [] ([], 0)
     = ((None, 0, Some ''cannot create request''),
        ([CreateRequest_call ''GET'' ''/projects/7/stories'' (Some Map.empty)], 1))
   \<and> StoryActivity spec_Query (list_stub [''GET''] (answering ?all)) 42 [] ([], 0)
     = ((None, Some ''cannot create request''),
        ([CreateRequest_call ''GET'' ''/projects/7/stories/42/activity'' (Some Map.empty)], 1))
   \<and> StoryTasks spec_Query (list_stub [''GET''] (answering ?all)) 42 [] ([], 0)
     = ((None, Some ''cannot create request''),
        ([CreateRequest_call ''GET'' ''/projects/7/stories/42/tasks'' (Some Map.empty)], 1))
   \<and> StoryComments spec_Query (list_stub [''GET''] (answering ?all)) 42 [] ([], 0)
     = ((None, Some ''cannot create request''),
        ([CreateRequest_call ''GET'' ''/projects/7/stories/42/comments'' (Some Map.empty)], 1))
   \<and> ProjectMemberships (list_stub [''GET''] (answering ?all)) ([], 0)
     = ((Some [], Some ''cannot create request''),
        ([CreateRequest_call ''GET'' ''/projects/7/memberships'' None], 1))"
    using inst [where p = "list_stub [''GET''] (answering ?all)"
                  and ps = "story_stub [''POST''] (answering ?all)"
                  and pt = "task_stub [''POST''] (answering ?all)"
                  and pc = "comment_stub [''POST''] (answering ?all)"] refuses ids no_params
    by (simp add: concrete)
  have delete: "DeleteStory (list_stub [''DELETE''] (answering ?all)) 42 ([], 0)
     = (Some ''cannot create request'',
        ([CreateRequest_call ''DELETE'' ''/projects/7/stories/42'' None], 1))"
    using inst [where p = "list_stub [''DELETE''] (answering ?all)"
                  and ps = "story_stub [''POST''] (answering ?all)"
                  and pt = "task_stub [''POST''] (answering ?all)"
                  and pc = "comment_stub [''POST''] (answering ?all)"] refuses ids
    by (simp add: concrete)
  have puts: "DeliverStory (list_stub [''PUT''] (answering ?all)) 42 ([], 0)
     = (Some ''cannot create request'',
        ([CreateRequest_call ''PUT'' ''/projects/7/stories/42'' None], 1))
   \<and> DeliverStoryWithComment ?Ew (list_stub [''PUT''] (answering ?all)) 42 ''done'' ([], 0)
     = (Some ''cannot create request'',
        ([CreateRequest_call ''PUT'' ''/projects/7/stories/42'' None], 1))"
    using inst [where p = "list_stub [''PUT''] (answering ?all)"
                  and ps = "story_stub [''POST''] (answering ?all)"
                  and pt = "task_stub [''POST''] (answering ?all)"
                  and pc = "comment_stub [''POST''] (answering ?all)"] refuses ids
    by (simp add: concrete)
  have composite: \<open>DeliverStoryWithComment ?Ew (list_stub [''POST''] (answering ?all)) 42
       ''done'' ([], 0)
     = (Some ''cannot create request'',
        ([CreateRequest_call ''PUT'' ''/projects/7/stories/42'' None,
          Do_call (json_request ''{"current_state":"delivered"}'') None,
          CreateRequest_call ''POST'' ''/projects/7/stories/42/comments'' None], 3))\<close>
    using inst [where p = "list_stub [''POST''] (answering ?all)"
                  and ps = "story_stub [''POST''] (answering ?all)"
                  and pt = "task_stub [''POST''] (answering ?all)"
                  and pc = "comment_stub [''POST''] (answering ?all)"] refuses ids delivered
    by (simp add: concrete)
  have stories: "CreateStory (encode_stub ''{}'' None) (story_stub [''POST''] (answering ?all))
       \<lparr>ID = 42, \<dots> = 0\<rparr> ([], 0)
     = ((Story_zero, Some ''cannot create request''),
        ([CreateRequest_call ''POST'' ''/projects/7/stories'' None], 1))"
    using inst [where p = "list_stub [''GET''] (answering ?all)"
                  and ps = "story_stub [''POST''] (answering ?all)"
                  and pt = "task_stub [''POST''] (answering ?all)"
                  and pc = "comment_stub [''POST''] (answering ?all)"] refuses ids
    by (simp add: concrete)
  have update: "UpdateStory (encode_stub ''{}'' None) (story_stub [''PUT''] (answering ?all))
       \<lparr>ID = 42, \<dots> = 0\<rparr> ([], 0)
     = ((Story_zero, Some ''cannot create request''),
        ([CreateRequest_call ''PUT'' ''/projects/7/stories/42'' None], 1))"
    using inst [where p = "list_stub [''GET''] (answering ?all)"
                  and ps = "story_stub [''PUT''] (answering ?all)"
                  and pt = "task_stub [''POST''] (answering ?all)"
                  and pc = "comment_stub [''POST''] (answering ?all)"] refuses ids
    by (simp add: concrete)
  have posts: "CreateTask (encode_stub ''{}'' None) (task_stub [''POST''] (answering ?all))
       42 5 ([], 0)
     = ((0, Some ''cannot create request''),
        ([CreateRequest_call ''POST'' ''/projects/7/stories/42/tasks'' None], 1))
   \<and> CreateComment (encode_stub ''{}'' None) (comment_stub [''POST''] (answering ?all)) 42
       \<lparr>Text = ''hi'', \<dots> = 0\<rparr> ([], 0)
     = ((Comment_zero, Some ''cannot create request''),
        ([CreateRequest_call ''POST'' ''/projects/7/stories/42/comments'' None], 1))
   \<and> CreateBlocker (encode_stub ''{}'' None) (task_stub [''POST''] (answering ?all))
       42 5 ([], 0)
     = ((0, Some ''cannot create request''),
        ([CreateRequest_call ''POST'' ''/projects/7/stories/42/blockers'' None], 1))"
    using inst [where p = "list_stub [''GET''] (answering ?all)"
                  and ps = "story_stub [''POST''] (answering ?all)"
                  and pt = "task_stub [''POST''] (answering ?all)"
                  and pc = "comment_stub [''POST''] (answering ?all)"] refuses ids
    by (simp add: concrete)
  from gets delete puts composite stories update posts show ?thesis
    by simp
qed

subsection \<open>Listing stories and iterations\<close>

lemma foldl_non_zero_fields:
  "foldl (\<lambda>params (key, f).
            if field_is_zero f then params else Values_Set params key (field_render f))
         m (non_zero_fields fs)
   = foldl (\<lambda>params (key, f).
              if field_is_zero f then params else Values_Set params key (field_render f))
           m fs"
  by (induction fs arbitrary: m) (auto simp: non_zero_fields_def)

lemma spec_Query_non_zero_fields: "spec_Query (non_zero_fields fs) = spec_Query fs"
  by (simp add: spec_Query_def foldl_non_zero_fields)

lemma spec_Query_limit_offset:
  "spec_Query [(''limit'', Int_field 10), (''offset'', Int_field 20)]
     = Some [''limit'' \<mapsto> [''10''], ''offset'' \<mapsto> [''20'']]"
  by (simp add: spec_Query_def field_is_zero_def field_render_def Values_Set_def
      Sprintf_d_10 Sprintf_d_20)

lemma IterationsQuery_Query_limit_offset:
  "IterationsQuery_Query \<lparr>Scope = [], Label = [], Limit = 10, Offset = 20\<rparr>
     = Some [''limit'' \<mapsto> [''10''], ''offset'' \<mapsto> [''20'']]"
  by (simp add: IterationsQuery_Query_def Values_Set_def Sprintf_d_10 Sprintf_d_20)

text \<open>
  Claim C7. For every query, when the request is created and \<^verbatim>\<open>Do\<close> succeeds,
  \<^verbatim>\<open>Stories\<close> and \<^verbatim>\<open>Iterations\<close> return the slice that \<^verbatim>\<open>Do\<close> stored in the
  destination (the nil slice when it stored nothing) and the pagination \<^verbatim>\<open>Do\<close> returned,
  with a nil error. Listing with \<^verbatim>\<open>Limit\<close> 10 and \<^verbatim>\<open>Offset\<close> 20 and every other field
  zero creates a request whose parameters are \<^verbatim>\<open>limit=10\<close> and \<^verbatim>\<open>offset=20\<close> and nothing
  else: for \<^verbatim>\<open>Iterations\<close> by the code of \<^verbatim>\<open>IterationsQuery.Query\<close>, for \<^verbatim>\<open>Stories\<close>
  by the query builder as the spec describes it (\<open>spec_Query\<close>).
\<close>

theorem list_results_returned:
  "(CreateRequest (conn p) ''GET'' (projectPath p ''/stories'') (Query q) s = (Inr request, s')
    \<and> Do (conn p) request (Some None) s' = ((written, pagination, None), sb) \<longrightarrow>
    Stories Query p q (tr, s) =
      ((assigned None written, pagination, None),
       (tr @ [CreateRequest_call ''GET'' (projectPath p ''/stories'') (Query q),
              Do_call request (Some None)], sb)))
   \<and> (CreateRequest (conn p) ''GET'' (projectPath p ''/iterations'') (IterationsQuery_Query iq) s
        = (Inr request, s')
    \<and> Do (conn p) request (Some None) s' = ((written, pagination, None), sb) \<longrightarrow>
    Iterations p iq (tr, s) =
      ((assigned None written, pagination, None),
       (tr @ [CreateRequest_call ''GET'' (projectPath p ''/iterations'')
                (IterationsQuery_Query iq),
              Do_call request (Some None)], sb)))
   \<and> assigned None (Some slice) = slice
   \<and> (non_zero_fields fs = [(''limit'', Int_field 10), (''offset'', Int_field 20)] \<longrightarrow>
       created (fst (snd (Stories spec_Query p fs (tr, s)))) =
         created tr @ [(''GET'', projectPath p ''/stories'',
                        Some [''limit'' \<mapsto> [''10''], ''offset'' \<mapsto> [''20'']])])
   \<and> created (fst (snd (Iterations p \<lparr>Scope = [], Label = [], Limit = 10, Offset = 20\<rparr>
                          (tr, s)))) =
         created tr @ [(''GET'', projectPath p ''/iterations'',
                        Some [''limit'' \<mapsto> [''10''], ''offset'' \<mapsto> [''20'']])]"
proof -
  note splits = prod.splits sum.splits option.splits
  have a: "CreateRequest (conn p) ''GET'' (projectPath p ''/stories'') (Query q) s
        = (Inr request, s')
    \<and> Do (conn p) request (Some None) s' = ((written, pagination, None), sb) \<longrightarrow>
    Stories Query p q (tr, s) =
      ((assigned None written, pagination, None),
       (tr @ [CreateRequest_call ''GET'' (projectPath p ''/stories'') (Query q),
              Do_call request (Some None)], sb))"
    using Stories_created [of p Query q s request s' written pagination None sb tr]
    by simp
  have b: "CreateRequest (conn p) ''GET'' (projectPath p ''/iterations'')
        (IterationsQuery_Query iq) s = (Inr request, s')
    \<and> Do (conn p) request (Some None) s' = ((written, pagination, None), sb) \<longrightarrow>
    Iterations p iq (tr, s) =
      ((assigned None written, pagination, None),
       (tr @ [CreateRequest_call ''GET'' (projectPath p ''/iterations'')
                (IterationsQuery_Query iq),
              Do_call request (Some None)], sb))"
    using Iterations_created [of p iq s request s' written pagination None sb tr]
    by simp
  have c: "assigned None (Some slice) = slice"
    by (simp add: assigned_def)
  have created_Stories: "\<And>Q. created (fst (snd (Stories Q p fs (tr, s)))) =
      created tr @ [(''GET'', projectPath p ''/stories'', Q fs)]"
    by (simp add: Stories_def createRequest_run call_Do_def Let_def created_append
        split: splits)
  have created_Iterations: "\<And>iq. created (fst (snd (Iterations p iq (tr, s)))) =
      created tr @ [(''GET'', projectPath p ''/iterations'', IterationsQuery_Query iq)]"
    by (simp add: Iterations_def createRequest_run call_Do_def Let_def created_append
        split: splits)
  have d: "non_zero_fields fs = [(''limit'', Int_field 10), (''offset'', Int_field 20)] \<longrightarrow>
       created (fst (snd (Stories spec_Query p fs (tr, s)))) =
         created tr @ [(''GET'', projectPath p ''/stories'',
                        Some [''limit'' \<mapsto> [''10''], ''offset'' \<mapsto> [''20'']])]"
  proof
    assume nz: "non_zero_fields fs = [(''limit'', Int_field 10), (''offset'', Int_field 20)]"
    have "spec_Query fs = spec_Query (non_zero_fields fs)"
      by (simp add: spec_Query_non_zero_fields)
    with nz have "spec_Query fs = Some [''limit'' \<mapsto> [''10''], ''offset'' \<mapsto> [''20'']]"
      by (simp only: spec_Query_limit_offset)
    with created_Stories [of spec_Query] show
      "created (fst (snd (Stories spec_Query p fs (tr, s)))) =
         created tr @ [(''GET'', projectPath p ''/stories'',
                        Some [''limit'' \<mapsto> [''10''], ''offset'' \<mapsto> [''20'']])]"
      by simp
  qed
  have e: "created (fst (snd (Iterations p \<lparr>Scope = [], Label = [], Limit = 10, Offset = 20\<rparr>
                          (tr, s)))) =
         created tr @ [(''GET'', projectPath p ''/iterations'',
                        Some [''limit'' \<mapsto> [''10''], ''offset'' \<mapsto> [''20'']])]"
    using created_Iterations [of "\<lparr>Scope = [], Label = [], Limit = 10, Offset = 20\<rparr>"]
    by (simp only: IterationsQuery_Query_limit_offset)
  from a b c d e show ?thesis
    by (intro conjI)
qed

theorem list_results_returned_witness:
  "Stories spec_Query (list_stub [] (answering (Some (Some [1, 2, 3]), 5, None)))
     [(''with_state'', String_field []), (''limit'', Int_field 10), (''offset'', Int_field 20)]
     ([], 0)
   = ((Some [1, 2, 3], 5, None),
      ([CreateRequest_call ''GET'' ''/projects/7/stories''
          (Some [''limit'' \<mapsto> [''10''], ''offset'' \<mapsto> [''20'']]),
        Do_call fresh_request (Some None)], 2))
   \<and> Iterations (list_stub [] (answering (Some (Some [1, 2, 3]), 5, None)))
     \<lparr>Scope = [], Label = [], Limit = 10, Offset = 20\<rparr> ([], 0)
   = ((Some [1, 2, 3], 5, None),
      ([CreateRequest_call ''GET'' ''/projects/7/iterations''
          (Some [''limit'' \<mapsto> [''10''], ''offset'' \<mapsto> [''20'']]),
        Do_call fresh_request (Some None)], 2))
   \<and> created (fst (snd (Stories spec_Query
                          (list_stub [] (answering (Some (Some [1, 2, 3]), 5, None)))
                          [(''with_state'', String_field []), (''limit'', Int_field 10),
                           (''offset'', Int_field 20)] ([], 0))))
     = [(''GET'', ''/projects/7/stories'',
         Some [''limit'' \<mapsto> [''10''], ''offset'' \<mapsto> [''20'']])]"
proof -
  let ?p = "list_stub [] (answering (Some (Some [1, 2, 3]), 5, None))"
  let ?fs = "[(''with_state'', String_field []), (''limit'', Int_field 10),
              (''offset'', Int_field 20)]"
  have transport:
    "\<And>method path params n. CreateRequest (conn ?p) method path params n
        = (Inr fresh_request, n + 1)"
    "\<And>request dest n. Do (conn ?p) request dest n
        = ((Some (Some [1, 2, 3]), 5, None), n + 1)"
    "id' ?p = 7"
    by (simp_all add: stub_def stub_client_def scripted_def)
  have nz: "non_zero_fields ?fs = [(''limit'', Int_field 10), (''offset'', Int_field 20)]"
    by (simp add: non_zero_fields_def field_is_zero_def)
  have params: "spec_Query ?fs = Some [''limit'' \<mapsto> [''10''], ''offset'' \<mapsto> [''20'']]"
    using spec_Query_non_zero_fields [of ?fs] nz spec_Query_limit_offset by simp
  show ?thesis
    using list_results_returned
      [where p = ?p and Query = spec_Query and q = ?fs and fs = ?fs and s = 0 and s' = 1
         and sb = 2 and tr = "[]" and request = fresh_request
         and written = "Some (Some [1, 2, 3])" and pagination = 5
         and iq = "\<lparr>Scope = [], Label = [], Limit = 10, Offset = 20\<rparr>"
         and slice = "Some [1, 2, 3]"]
      transport nz params IterationsQuery_Query_limit_offset
    by (simp add: Sprintf_d_7 assigned_def)
qed

end
